(* ===== verification/Prelude.thy ===== *)
theory Prelude
  imports Main "HOL-Library.Sublist"
begin

text \<open>
  Shared vocabulary of the development: the loosely typed cell values that the spreadsheet
  parser puts into a row object, JavaScript truthiness and the \<open>a || b || ''\<close> chains of
  \<open>src/gestion-maintenance/js/app.js\<close>, and the string primitives the code calls
  (\<open>String(v)\<close>, \<open>toUpperCase\<close>, \<open>toLowerCase\<close>, \<open>trim\<close>, \<open>includes\<close>, \<open>join\<close>).
  A JavaScript string is a list of UTF-16 code units; the model writes it as an Isabelle
  \<open>string\<close> whose characters are the code units U+0000 to U+00FF (ASCII and Latin-1,
  which covers the French text of the application: \<open>\<acute>e\<close> is \<open>CHR 0xE9\<close>).
\<close>

named_theorems js_simps \<open>evaluation rules of the JavaScript primitives\<close>

section \<open>Cell values\<close>

text \<open>
  A cell of a row object produced by \<open>XLSX.utils.sheet_to_json(ws, {defval: ''})\<close>: a
  string, a number or a boolean; an empty cell is the empty string. Numbers are modelled
  as integers (the numeric cells this application reads are counts, flags and codes).
\<close>

datatype cell = CStr string | CNum int | CBool bool

text \<open>A row object, as its own properties in enumeration order; \<open>row[k]\<close> is \<open>map_of\<close>.\<close>

type_synonym row = "(string \<times> cell) list"

definition get :: "row \<Rightarrow> string \<Rightarrow> cell option" where
  "get r k = map_of r k"

text \<open>JavaScript truthiness of a property read: \<open>undefined\<close>, \<open>''\<close>, \<open>0\<close> and \<open>false\<close> are falsy.\<close>

fun truthy :: "cell \<Rightarrow> bool" where
  "truthy (CStr s) = (s \<noteq> [])"
| "truthy (CNum n) = (n \<noteq> 0)"
| "truthy (CBool b) = b"

text \<open>
  \<open>v1 || v2 || ... || ''\<close>: the first truthy operand, else the final \<open>''\<close>. A missing
  property (\<open>None\<close>, JavaScript's \<open>undefined\<close>) is skipped like a falsy one.
\<close>

fun js_or :: "cell option list \<Rightarrow> cell" where
  "js_or [] = CStr []"
| "js_or (None # vs) = js_or vs"
| "js_or (Some c # vs) = (if truthy c then c else js_or vs)"

section \<open>String conversion\<close>

fun nat_to_str :: "nat \<Rightarrow> string" where
  "nat_to_str n =
     (if n < 10 then [char_of (48 + n)] else nat_to_str (n div 10) @ [char_of (48 + n mod 10)])"

definition int_to_str :: "int \<Rightarrow> string" where
  "int_to_str i = (if i < 0 then CHR ''-'' # nat_to_str (nat (- i)) else nat_to_str (nat i))"

text \<open>\<open>String(v)\<close>, \<open>v.toString()\<close> and template interpolation \<open>`${v}`\<close> of a cell.\<close>

fun to_str :: "cell \<Rightarrow> string" where
  "to_str (CStr s) = s"
| "to_str (CNum n) = int_to_str n"
| "to_str (CBool b) = (if b then ''true'' else ''false'')"

text \<open>The Latin-1 letters that occur in the source's literals.\<close>

abbreviation E_acute :: char where "E_acute \<equiv> CHR 0xC9"
abbreviation e_acute :: char where "e_acute \<equiv> CHR 0xE9"
abbreviation c_cedil :: char where "c_cedil \<equiv> CHR 0xE7"
abbreviation degree_sign :: char where "degree_sign \<equiv> CHR 0xB0"

section \<open>Case mapping and white space\<close>

text \<open>
  \<open>toUpperCase\<close> on one code unit of the Latin-1 range: \<open>a\<close>..\<open>z\<close> and
  U+00E0..U+00FE except U+00F7 move down by 32; U+00DF (sharp s) becomes \<open>SS\<close>. The two
  code units whose upper case lies outside Latin-1 (U+00B5, U+00FF) are kept: their upper
  forms contain no letter the classifiers look for.
\<close>

definition upper_char :: "char \<Rightarrow> string" where
  "upper_char c =
     (let n = of_char c :: nat in
      if (97 \<le> n \<and> n \<le> 122) \<or> (224 \<le> n \<and> n \<le> 254 \<and> n \<noteq> 247) then [char_of (n - 32)]
      else if n = 223 then ''SS''
      else [c])"

definition js_upper :: "string \<Rightarrow> string" where
  "js_upper s = concat (map upper_char s)"

text \<open>\<open>toLowerCase\<close>: \<open>A\<close>..\<open>Z\<close> and U+00C0..U+00DE except U+00D7 move up by 32.\<close>

definition lower_char :: "char \<Rightarrow> char" where
  "lower_char c =
     (let n = of_char c :: nat in
      if (65 \<le> n \<and> n \<le> 90) \<or> (192 \<le> n \<and> n \<le> 222 \<and> n \<noteq> 215) then char_of (n + 32) else c)"

definition js_lower :: "string \<Rightarrow> string" where
  "js_lower s = map lower_char s"

text \<open>The ECMAScript WhiteSpace and LineTerminator code units of the Latin-1 range.\<close>

definition js_ws :: "char \<Rightarrow> bool" where
  "js_ws c = (of_char c \<in> {9, 10, 11, 12, 13, 32, 160 :: nat})"

definition js_trim :: "string \<Rightarrow> string" where
  "js_trim s = rev (dropWhile js_ws (rev (dropWhile js_ws s)))"

section \<open>Searching and joining\<close>

text \<open>\<open>s.includes(p)\<close>: \<open>p\<close> starts at some position of \<open>s\<close>.\<close>

fun js_includes :: "string \<Rightarrow> string \<Rightarrow> bool" where
  "js_includes [] p = (p = [])"
| "js_includes (c # cs) p = (prefix p (c # cs) \<or> js_includes cs p)"

text \<open>\<open>xs.join(sep)\<close>.\<close>

fun js_join :: "string \<Rightarrow> string list \<Rightarrow> string" where
  "js_join sep [] = []"
| "js_join sep [x] = x"
| "js_join sep (x # y # zs) = x @ sep @ js_join sep (y # zs)"

section \<open>Shared lemmas\<close>

text \<open>Deciding equalities between computed and literal characters by their codes.\<close>

lemma char_of_nat_eq_iff [simp, js_simps]: "char_of (n::nat) = c \<longleftrightarrow> n mod 256 = of_char c"
  by (auto simp: char_of_eq_iff take_bit_eq_mod)

lemma eq_char_of_nat_iff [simp, js_simps]: "c = char_of (n::nat) \<longleftrightarrow> n mod 256 = of_char c"
  by (metis char_of_nat_eq_iff)

lemma js_includes_sublist: "js_includes s p \<longleftrightarrow> sublist p s"
  by (induction s) (auto simp: sublist_Cons_right)

lemma js_includes_infix:
  "js_includes s q \<Longrightarrow> js_includes q p \<Longrightarrow> js_includes s p"
  unfolding js_includes_sublist
  by (rule sublist_order.order.trans)

lemma js_or_cases: "js_or vs = CStr [] \<or> (truthy (js_or vs) \<and> Some (js_or vs) \<in> set vs)"
  by (induction vs rule: js_or.induct) auto

lemma js_or_falsy [simp]: "\<not> truthy (js_or vs) \<longleftrightarrow> js_or vs = CStr []"
  using js_or_cases [of vs] by auto

lemma js_trim_Nil [simp]: "js_trim [] = []"
  by (simp add: js_trim_def)

declare js_includes_sublist [js_simps]

end
