(* ===== verification/Resolver.thy ===== *)
theory Resolver
  imports Prelude
begin

text \<open>
  The field resolver of \<open>normalizeData\<close> (\<open>app.js\<close> lines 133 to 147): every canonical
  field is read as \<open>row[a1] || row[a2] || ... || ''\<close> over a fixed list of spellings of the
  column name. \<open>resolve\<close> is that chain; the alias lists are the source's, in its order.
\<close>

definition resolve :: "row \<Rightarrow> string list \<Rightarrow> cell" where
  "resolve r ks = js_or (map (get r) ks)"

definition equipement_keys :: "string list" where
  "equipement_keys = [e_acute # ''quipement'', ''Equipement'', ''EQUIPEMENT'']"

definition marque_keys :: "string list" where
  "marque_keys = [''marque'', ''Marque'', ''MARQUE'']"

definition inventaire_keys :: "string list" where
  "inventaire_keys = [''inventaire'', ''Inventaire'', ''INVENTAIRE'']"

definition serie_keys :: "string list" where
  "serie_keys = [''n'' @ [degree_sign] @ '' s'' @ [e_acute] @ ''rie'',
                 ''N'' @ [degree_sign] @ '' s'' @ [e_acute] @ ''rie'',
                 ''N'' @ [degree_sign] @ '' S'' @ [e_acute] @ ''rie'', ''serie'']"

definition etablissement_keys :: "string list" where
  "etablissement_keys = [e_acute # ''tablissement'', ''Etablissement'', ''ETABLISSEMENT'']"

definition panne_keys :: "string list" where
  "panne_keys = [''panne'', ''Panne'', ''PANNE'']"

definition technicien_keys :: "string list" where
  "technicien_keys = [''technicien'', ''Technicien'', ''TECHNICIEN'']"

definition date_keys :: "string list" where
  "date_keys = [''date'', ''Date'', ''DATE'']"

text \<open>An alias \<open>k\<close> gives a value when the row has a truthy cell under it.\<close>

definition hit :: "row \<Rightarrow> string \<Rightarrow> bool" where
  "hit r k = (case get r k of Some c \<Rightarrow> truthy c | None \<Rightarrow> False)"

lemma resolve_Cons:
  "resolve r (k # ks) = (if hit r k then the (get r k) else resolve r ks)"
  by (cases "get r k") (auto simp: resolve_def hit_def)

lemma resolve_Nil [simp]: "resolve r [] = CStr []"
  by (simp add: resolve_def)

lemmas resolve_simps = resolve_Cons resolve_Nil

lemma resolve_skip:
  "\<forall>k \<in> set ks1. \<not> hit r k \<Longrightarrow> resolve r (ks1 @ ks2) = resolve r ks2"
  by (induction ks1) (auto simp: resolve_simps)

subsection \<open>Properties\<close>

text \<open>Claim C19 (first truthy alias): the resolved value is the cell of the first alias, in
  the list's order, under which the row holds a truthy cell; aliases before it are skipped,
  aliases after it are not read.\<close>

theorem resolve_first_hit:
  "\<forall>k \<in> set ks1. \<not> hit r k \<Longrightarrow> get r k = Some c \<Longrightarrow> truthy c \<Longrightarrow> resolve r (ks1 @ k # ks2) = c"
  by (simp add: resolve_skip resolve_simps hit_def)

theorem resolve_first_hit_witness:
  "\<not> hit [(''marque'', CStr []), (''Marque'', CStr ''HP''), (''MARQUE'', CStr ''Dell'')] ''marque'' \<and>
   get [(''marque'', CStr []), (''Marque'', CStr ''HP''), (''MARQUE'', CStr ''Dell'')] ''Marque'' = Some (CStr ''HP'') \<and>
   resolve [(''marque'', CStr []), (''Marque'', CStr ''HP''), (''MARQUE'', CStr ''Dell'')] marque_keys = CStr ''HP''"
proof -
  let ?r = "[(''marque'', CStr []), (''Marque'', CStr ''HP''), (''MARQUE'', CStr ''Dell'')]"
  have h: "\<forall>k \<in> set [''marque'']. \<not> hit ?r k" by (simp add: hit_def get_def)
  have g: "get ?r ''Marque'' = Some (CStr ''HP'')" by (simp add: get_def)
  have "resolve ?r ([''marque''] @ ''Marque'' # [''MARQUE'']) = CStr ''HP''"
    using resolve_first_hit [OF h g] by simp
  with h g show ?thesis by (simp add: marque_keys_def)
qed

text \<open>Example (falsy numbers): the \<open>||\<close> chain treats a cell holding the number 0 like a
  missing one: an inventory number 0 resolves to the empty string.\<close>

theorem resolve_zero_dropped: "resolve [(''inventaire'', CNum 0)] inventaire_keys = CStr []"
  by (simp add: resolve_def inventaire_keys_def get_def)

end
