(* ===== verification/Type_Classifier.thy ===== *)
theory Type_Classifier
  imports Resolver
begin

text \<open>
  The facility-type classifier \<open>detectType\<close> (\<open>app.js\<close> lines 157 to 172): the facility
  cell is converted with \<open>toString()\<close>, upper-cased, and searched for keywords in a fixed
  order, the first match winning. The result is the string the record stores in its
  \<open>type\<close> field; the model keeps it as a datatype and \<open>etype_label\<close> gives the string.
\<close>

datatype etype = EP | CEM | Lycee | Direction | Autre

fun etype_label :: "etype \<Rightarrow> string" where
  "etype_label EP = ''EP''"
| "etype_label CEM = ''CEM''"
| "etype_label Lycee = ''Lyc'' @ [e_acute] @ ''e''"
| "etype_label Direction = ''Direction''"
| "etype_label Autre = ''Autre''"

definition detectType :: "cell \<Rightarrow> etype" where
  "detectType etablissement =
     (let s = js_upper (to_str etablissement) in
      if js_includes s ''EP'' \<or> js_includes s ''PRIMAIRE'' then EP
      else if js_includes s ''CEM'' then CEM
      else if js_includes s ''LYCEE'' \<or> js_includes s (''LYC'' @ [E_acute] @ ''E'') then Lycee
      else if js_includes s ''DIRECTION'' then Direction
      else Autre)"

text \<open>The keywords, grouped by the branch that tests them.\<close>

definition type_keywords :: "etype \<Rightarrow> string list" where
  "type_keywords t = (case t of
      EP \<Rightarrow> [''EP'', ''PRIMAIRE''] | CEM \<Rightarrow> [''CEM'']
    | Lycee \<Rightarrow> [''LYCEE'', ''LYC'' @ [E_acute] @ ''E''] | Direction \<Rightarrow> [''DIRECTION'']
    | Autre \<Rightarrow> [])"

definition matches_type :: "cell \<Rightarrow> etype \<Rightarrow> bool" where
  "matches_type e t = (\<exists>k \<in> set (type_keywords t). js_includes (js_upper (to_str e)) k)"

fun etype_rank :: "etype \<Rightarrow> nat" where
  "etype_rank EP = 0" | "etype_rank CEM = 1" | "etype_rank Lycee = 2"
| "etype_rank Direction = 3" | "etype_rank Autre = 4"

lemma etype_label_inj: "etype_label a = etype_label b \<longleftrightarrow> a = b"
  by (cases a; cases b) simp_all

lemma detectType_eq:
  "detectType e =
     (if matches_type e EP then EP else if matches_type e CEM then CEM
      else if matches_type e Lycee then Lycee else if matches_type e Direction then Direction
      else Autre)"
  by (simp add: detectType_def matches_type_def type_keywords_def Let_def)

subsection \<open>Case mapping\<close>

lemma upper_lower_char [simp]: "upper_char (lower_char c) = upper_char c"
proof -
  define n where "n = (of_char c :: nat)"
  have lt: "n < 256" by (simp add: n_def)
  show ?thesis
  proof (cases "(65 \<le> n \<and> n \<le> 90) \<or> (192 \<le> n \<and> n \<le> 222 \<and> n \<noteq> 215)")
    case True
    then have l: "lower_char c = char_of (n + 32)" by (simp add: lower_char_def n_def)
    from True lt have "of_char (char_of (n + 32)) = (n + 32 :: nat)" by auto
    moreover have "char_of (n + 32 - 32) = c" by (simp add: n_def)
    ultimately show ?thesis using True by (auto simp: upper_char_def l Let_def)
  next
    case False
    then have "lower_char c = c" unfolding lower_char_def Let_def n_def [symmetric] by auto
    then show ?thesis by simp
  qed
qed

lemma js_upper_js_lower [simp]: "js_upper (js_lower s) = js_upper s"
  by (simp add: js_upper_def js_lower_def comp_def)

subsection \<open>Properties\<close>

lemma matches_type_Autre [simp]: "\<not> matches_type e Autre"
  by (simp add: matches_type_def type_keywords_def)

text \<open>Claim C13 (priority): the facility type is the first keyword group, in the order EP,
  CEM, Lyc\<acute>ee, Direction, whose keyword occurs in the upper-cased name; it is \<open>Autre\<close>
  exactly when no group matches.\<close>

theorem detectType_first_match:
  "(detectType e = Autre \<longleftrightarrow> (\<forall>t. \<not> matches_type e t)) \<and>
   (detectType e \<noteq> Autre \<longrightarrow> matches_type e (detectType e)) \<and>
   (matches_type e t \<longrightarrow> etype_rank (detectType e) \<le> etype_rank t)"
proof -
  have all: "(\<forall>t. \<not> matches_type e t) \<longleftrightarrow>
      \<not> matches_type e EP \<and> \<not> matches_type e CEM \<and> \<not> matches_type e Lycee \<and> \<not> matches_type e Direction"
    by (metis etype.exhaust matches_type_Autre)
  show ?thesis
    unfolding detectType_eq [of e] all by (cases t) auto
qed

theorem detectType_first_match_witness:
  "detectType (CStr (''EP CEM Lyc'' @ [e_acute] @ ''e'')) = EP \<and>
   matches_type (CStr (''EP CEM Lyc'' @ [e_acute] @ ''e'')) CEM"
proof -
  have m: "matches_type (CStr (''EP CEM Lyc'' @ [e_acute] @ ''e'')) CEM" by code_simp
  have "matches_type (CStr (''EP CEM Lyc'' @ [e_acute] @ ''e'')) EP" by code_simp
  then have "etype_rank (detectType (CStr (''EP CEM Lyc'' @ [e_acute] @ ''e''))) \<le> etype_rank EP"
    using detectType_first_match [of "CStr (''EP CEM Lyc'' @ [e_acute] @ ''e'')" EP] by blast
  then have "detectType (CStr (''EP CEM Lyc'' @ [e_acute] @ ''e'')) = EP"
    by (cases "detectType (CStr (''EP CEM Lyc'' @ [e_acute] @ ''e''))") auto
  with m show ?thesis by simp
qed

text \<open>Claim C14 (case insensitivity): the classification of a name does not depend on the
  case of its letters: lower-casing the name first gives the same facility type.\<close>

theorem detectType_case_insensitive: "detectType (CStr (js_lower s)) = detectType (CStr s)"
  by (simp add: detectType_def)

text \<open>Example (substring keyword): the \<open>EP\<close> keyword is matched anywhere in the name,
  inside words too, so a CEM named after the first of September is classified as a primary
  school.\<close>

theorem detectType_september_is_EP: "detectType (CStr ''CEM 1er Septembre'') = EP"
  by code_simp

end
