(* ===== verification/Status_Classifier.thy ===== *)
theory Status_Classifier
  imports Resolver
begin

text \<open>
  The status classifier \<open>detectStatut\<close> (\<open>app.js\<close> lines 175 to 196). Phase one looks for
  the number \<open>1\<close> (strict equality \<open>=== 1\<close>) under three groups of status columns; phase
  two searches \<open>JSON.stringify(row).toLowerCase()\<close> for keywords; the default is
  \<open>'rec'\<close>. \<open>JSON.stringify\<close> of a row object is modelled after ECMAScript's
  SerializeJSONObject and QuoteJSONString, for the cell values of the model.
\<close>

datatype statut = Rec | Re | Nr

fun statut_code :: "statut \<Rightarrow> string" where
  "statut_code Rec = ''rec''"
| "statut_code Re = ''re''"
| "statut_code Nr = ''nr''"

subsection \<open>JSON text of a row\<close>

abbreviation bslash :: char where "bslash \<equiv> CHR 0x5C"

definition hex_digit :: "nat \<Rightarrow> char" where
  "hex_digit d = (if d < 10 then char_of (48 + d) else char_of (87 + d))"

text \<open>QuoteJSONString on one code unit.\<close>

definition json_esc :: "char \<Rightarrow> string" where
  "json_esc c =
     (let n = of_char c :: nat in
      if n = 8 then [bslash, CHR ''b''] else if n = 9 then [bslash, CHR ''t''] else if n = 10 then [bslash, CHR ''n'']
      else if n = 12 then [bslash, CHR ''f''] else if n = 13 then [bslash, CHR ''r'']
      else if n = 34 then [bslash, CHR 0x22] else if n = 92 then [bslash, bslash]
      else if n < 32 then bslash # ''u00'' @ [hex_digit (n div 16), hex_digit (n mod 16)]
      else [c])"

definition json_quote :: "string \<Rightarrow> string" where
  "json_quote s = CHR 0x22 # concat (map json_esc s) @ [CHR 0x22]"

fun json_cell :: "cell \<Rightarrow> string" where
  "json_cell (CStr s) = json_quote s"
| "json_cell (CNum n) = int_to_str n"
| "json_cell (CBool b) = (if b then ''true'' else ''false'')"

definition json_row :: "row \<Rightarrow> string" where
  "json_row r = CHR ''{'' # js_join '','' (map (\<lambda>(k, v). json_quote k @ '':'' @ json_cell v) r) @ ''}''"

subsection \<open>The classifier\<close>

definition is_one :: "row \<Rightarrow> string \<Rightarrow> bool" where
  "is_one r k = (get r k = Some (CNum 1))"

abbreviation recu_str :: string where "recu_str \<equiv> ''re'' @ [c_cedil] @ ''u''"
abbreviation repare_str :: string where "repare_str \<equiv> ''r'' @ [e_acute] @ ''par'' @ [e_acute]"

definition detectStatut :: "row \<Rightarrow> statut" where
  "detectStatut r =
     (if is_one r ''rec'' \<or> is_one r ''REC'' \<or> is_one r (''Re'' @ [c_cedil] @ ''u'') then Rec
      else if is_one r ''re'' \<or> is_one r ''RE'' \<or> is_one r (''R'' @ [e_acute] @ ''par'' @ [e_acute])
      then Re
      else if is_one r ''nr'' \<or> is_one r ''NR'' \<or> is_one r (''Non r'' @ [e_acute] @ ''par'' @ [e_acute])
      then Nr
      else
        (let text = js_lower (json_row r) in
         if js_includes text recu_str \<or> js_includes text ''recu'' then Rec
         else if js_includes text repare_str \<or> js_includes text (''repar'' @ [e_acute])
                 \<or> js_includes text ''repar'' then Re
         else if js_includes text (''non '' @ repare_str)
                 \<or> js_includes text (''non repar'' @ [e_acute]) \<or> js_includes text ''nr'' then Nr
         else Rec))"

definition phase_one :: "row \<Rightarrow> statut option" where
  "phase_one r =
     (if is_one r ''rec'' \<or> is_one r ''REC'' \<or> is_one r (''Re'' @ [c_cedil] @ ''u'') then Some Rec
      else if is_one r ''re'' \<or> is_one r ''RE'' \<or> is_one r (''R'' @ [e_acute] @ ''par'' @ [e_acute])
      then Some Re
      else if is_one r ''nr'' \<or> is_one r ''NR'' \<or> is_one r (''Non r'' @ [e_acute] @ ''par'' @ [e_acute])
      then Some Nr
      else None)"

text \<open>The column groups of phase one and the keywords of the first two text branches.\<close>

definition rec_cols :: "string list" where
  "rec_cols = [''rec'', ''REC'', ''Re'' @ [c_cedil] @ ''u'']"

definition re_cols :: "string list" where
  "re_cols = [''re'', ''RE'', ''R'' @ [e_acute] @ ''par'' @ [e_acute]]"

definition nr_cols :: "string list" where
  "nr_cols = [''nr'', ''NR'', ''Non r'' @ [e_acute] @ ''par'' @ [e_acute]]"

definition rec_re_keyword :: "string \<Rightarrow> bool" where
  "rec_re_keyword t =
     (js_includes t recu_str \<or> js_includes t ''recu'' \<or> js_includes t repare_str
      \<or> js_includes t (''repar'' @ [e_acute]) \<or> js_includes t ''repar'')"

lemma statut_code_inj: "statut_code a = statut_code b \<longleftrightarrow> a = b"
  by (cases a; cases b) simp_all

text \<open>The keywords of the third text branch contain those of the second.\<close>

lemma non_repare_includes_repare:
  "js_includes t (''non '' @ repare_str) \<Longrightarrow> js_includes t repare_str"
  "js_includes t (''non repar'' @ [e_acute]) \<Longrightarrow> js_includes t (''repar'' @ [e_acute])"
  by (erule js_includes_infix, code_simp)+

lemma sublist_prepend: "sublist x ys \<Longrightarrow> sublist x (zs @ ys)"
  by (metis sublist_append_leftI sublist_order.order.trans)

lemma sublist_js_join: "x \<in> set xs \<Longrightarrow> sublist x (js_join sep xs)"
  by (induction sep xs rule: js_join.induct) (auto intro: sublist_prepend)

lemma sublist_mid: "sublist x ys \<Longrightarrow> sublist x (zs @ ys @ ws)"
  by (metis sublist_appendI sublist_order.order.trans)

lemma sublist_concat_map: "sublist p s \<Longrightarrow> sublist (concat (map f p)) (concat (map f s))"
proof -
  assume "sublist p s"
  then obtain ps ss where "s = ps @ p @ ss" by (auto simp: sublist_def)
  then show ?thesis unfolding sublist_def
    by (intro exI [of _ "concat (map f ps)"] exI [of _ "concat (map f ss)"]) simp
qed

lemma js_lower_sublist: "sublist p s \<Longrightarrow> sublist (js_lower p) (js_lower s)"
proof -
  assume "sublist p s"
  then obtain ps ss where "s = ps @ p @ ss" by (auto simp: sublist_def)
  then show ?thesis unfolding sublist_def js_lower_def
    by (intro exI [of _ "map lower_char ps"] exI [of _ "map lower_char ss"]) simp
qed

text \<open>The letters \<open>nr\<close> of a column name, or a line break followed by \<open>r\<close> in a text cell,
  reach the lower-cased JSON text of the row.\<close>

lemma json_row_nr:
  assumes "(k, c) \<in> set r" and "js_includes k ''nr'' \<or> (\<exists>s. c = CStr s \<and> js_includes s [CHR 0x0A, CHR ''r''])"
  shows "js_includes (js_lower (json_row r)) ''nr''"
proof -
  have "sublist (json_quote k @ '':'' @ json_cell c)
          (js_join '','' (map (\<lambda>(k, v). json_quote k @ '':'' @ json_cell v) r))"
    using assms(1) by (intro sublist_js_join) force
  then have part: "sublist (json_quote k @ '':'' @ json_cell c) (json_row r)"
    using sublist_mid [of _ _ "[CHR ''{'']" "''}''"] by (simp add: json_row_def)
  have q: "sublist p (json_quote x)" if "sublist p (concat (map json_esc x))" for p x
    using sublist_mid [OF that, of "[CHR 0x22]" "[CHR 0x22]"] by (simp add: json_quote_def)
  have "sublist ''nr'' (json_quote k @ '':'' @ json_cell c)"
  proof (cases "js_includes k ''nr''")
    case True
    then have "sublist ''nr'' k" by (simp add: js_includes_sublist)
    then have "sublist (concat (map json_esc ''nr'')) (concat (map json_esc k))"
      by (rule sublist_concat_map)
    then have "sublist ''nr'' (json_quote k)" by (intro q) (simp add: json_esc_def)
    then show ?thesis by (metis sublist_append_rightI sublist_order.order.trans)
  next
    case False
    with assms(2) obtain s where c: "c = CStr s" and "js_includes s [CHR 0x0A, CHR ''r'']" by blast
    then have "sublist [CHR 0x0A, CHR ''r''] s" by (simp add: js_includes_sublist)
    then have "sublist (concat (map json_esc [CHR 0x0A, CHR ''r''])) (concat (map json_esc s))"
      by (rule sublist_concat_map)
    then have "sublist ([bslash] @ ''nr'' @ []) (concat (map json_esc s))" by (simp add: json_esc_def)
    then have "sublist ''nr'' (concat (map json_esc s))"
      by (metis sublist_appendI sublist_order.order.trans)
    then have "sublist ''nr'' (json_cell c)" by (simp add: c q)
    then show ?thesis using sublist_prepend [of "''nr''" _ "json_quote k @ '':''"] by simp
  qed
  then have "sublist ''nr'' (json_row r)" using part sublist_order.order.trans by blast
  then have "sublist (js_lower ''nr'') (js_lower (json_row r))" by (rule js_lower_sublist)
  then show ?thesis by (simp add: js_includes_sublist js_lower_def lower_char_def)
qed

subsection \<open>Properties\<close>

text \<open>Default status: a row with no cells has no status column and no keyword in its
  text \<open>{}\<close>, so its status is the default \<open>'rec'\<close>.\<close>

theorem detectStatut_empty_row: "detectStatut [] = Rec"
  by code_simp

text \<open>Claim C16 (columns first): a 1 under a received column makes the row received; else
  a 1 under a repaired column makes it repaired; else a 1 under a not-repaired column makes it
  not repaired; in each case whatever text the other cells hold.\<close>

theorem detectStatut_columns_decide:
  "((\<exists>k \<in> set rec_cols. is_one r k) \<longrightarrow> detectStatut r = Rec) \<and>
   ((\<forall>k \<in> set rec_cols. \<not> is_one r k) \<longrightarrow> (\<exists>k \<in> set re_cols. is_one r k) \<longrightarrow> detectStatut r = Re) \<and>
   ((\<forall>k \<in> set rec_cols \<union> set re_cols. \<not> is_one r k) \<longrightarrow> (\<exists>k \<in> set nr_cols. is_one r k) \<longrightarrow>
    detectStatut r = Nr)"
  by (auto simp: detectStatut_def rec_cols_def re_cols_def nr_cols_def)

theorem detectStatut_columns_decide_witness:
  "detectStatut [(''nr'', CNum 1), (''REC'', CNum 1), (''Panne'', CStr ''non repare'')] = Rec \<and>
   detectStatut [(''nr'', CNum 1), (''re'', CNum 1), (''Panne'', CStr ''recu'')] = Re \<and>
   detectStatut [(''NR'', CNum 1), (''re'', CNum 0), (''Panne'', CStr ''recu'')] = Nr"
proof -
  have a: "\<exists>k \<in> set rec_cols. is_one [(''nr'', CNum 1), (''REC'', CNum 1), (''Panne'', CStr ''non repare'')] k"
    by code_simp
  have b1: "\<forall>k \<in> set rec_cols. \<not> is_one [(''nr'', CNum 1), (''re'', CNum 1), (''Panne'', CStr ''recu'')] k"
    by code_simp
  have b2: "\<exists>k \<in> set re_cols. is_one [(''nr'', CNum 1), (''re'', CNum 1), (''Panne'', CStr ''recu'')] k"
    by code_simp
  have c1: "\<forall>k \<in> set rec_cols \<union> set re_cols. \<not> is_one [(''NR'', CNum 1), (''re'', CNum 0), (''Panne'', CStr ''recu'')] k"
    by code_simp
  have c2: "\<exists>k \<in> set nr_cols. is_one [(''NR'', CNum 1), (''re'', CNum 0), (''Panne'', CStr ''recu'')] k"
    by code_simp
  show ?thesis
    using detectStatut_columns_decide [of "[(''nr'', CNum 1), (''REC'', CNum 1), (''Panne'', CStr ''non repare'')]"]
      detectStatut_columns_decide [of "[(''nr'', CNum 1), (''re'', CNum 1), (''Panne'', CStr ''recu'')]"]
      detectStatut_columns_decide [of "[(''NR'', CNum 1), (''re'', CNum 0), (''Panne'', CStr ''recu'')]"]
      a b1 b2 c1 c2 by blast
qed

text \<open>Claim C17 (unreachable keywords): the text phase never yields \<open>'nr'\<close> from the words
  \<open>non r\<acute>epar\<acute>e\<close>, because they contain \<open>r\<acute>epar\<acute>e\<close>, tested before: a row is
  \<open>'nr'\<close> only through a status column or the two letters \<open>nr\<close> in its JSON text.\<close>

theorem detectStatut_Nr_only_via_nr:
  "detectStatut r = Nr \<Longrightarrow> phase_one r = Some Nr \<or> js_includes (js_lower (json_row r)) ''nr''"
  using non_repare_includes_repare [of "js_lower (json_row r)"]
  by (auto simp: detectStatut_def phase_one_def Let_def split: if_splits)

theorem detectStatut_Nr_only_via_nr_witness:
  "detectStatut [(''NR'', CNum 1)] = Nr \<and> phase_one [(''NR'', CNum 1)] = Some Nr \<and>
   detectStatut [(''Etat'', CStr (''Non '' @ repare_str))] = Re"
proof -
  have d: "detectStatut [(''NR'', CNum 1)] = Nr" by code_simp
  have "phase_one [(''NR'', CNum 1)] = Some Nr \<or> js_includes (js_lower (json_row [(''NR'', CNum 1)])) ''nr''"
    using detectStatut_Nr_only_via_nr [OF d] .
  moreover have "phase_one [(''NR'', CNum 1)] = Some Nr" by code_simp
  moreover have "detectStatut [(''Etat'', CStr (''Non '' @ repare_str))] = Re" by code_simp
  ultimately show ?thesis using d by simp
qed

text \<open>Claim C18 (the text phase reads keys and escapes): when no status column holds 1 and
  the row's JSON text has no received or repaired keyword, a row is classified \<open>'nr'\<close> as
  soon as a column name contains the letters \<open>nr\<close> (such as the status column \<open>nr\<close>
  itself holding 0) or a text cell holds a line break followed by \<open>r\<close>, which
  \<open>JSON.stringify\<close> writes \<open>\\nr\<close>.\<close>

theorem detectStatut_text_reads_keys_and_escapes:
  "phase_one r = None \<Longrightarrow> \<not> rec_re_keyword (js_lower (json_row r)) \<Longrightarrow>
   (\<exists>(k, c) \<in> set r. js_includes k ''nr'' \<or> (\<exists>s. c = CStr s \<and> js_includes s [CHR 0x0A, CHR ''r''])) \<Longrightarrow>
   detectStatut r = Nr"
proof -
  assume p: "phase_one r = None" and k: "\<not> rec_re_keyword (js_lower (json_row r))"
    and e: "\<exists>(k, c) \<in> set r. js_includes k ''nr'' \<or> (\<exists>s. c = CStr s \<and> js_includes s [CHR 0x0A, CHR ''r''])"
  from e have "js_includes (js_lower (json_row r)) ''nr''" by (auto intro: json_row_nr)
  with p k show ?thesis
    by (simp add: detectStatut_def phase_one_def rec_re_keyword_def Let_def split: if_splits)
qed

theorem detectStatut_text_reads_keys_and_escapes_witness:
  "detectStatut [(''rec'', CNum 0), (''re'', CNum 0), (''nr'', CNum 0)] = Nr \<and>
   detectStatut [(''Panne'', CStr (''Ecran'' @ [CHR 0x0A] @ ''rayure''))] = Nr"
proof -
  let ?r = "[(''rec'', CNum 0), (''re'', CNum 0), (''nr'', CNum 0)]"
  let ?q = "[(''Panne'', CStr (''Ecran'' @ [CHR 0x0A] @ ''rayure''))]"
  have p1: "phase_one ?r = None" by code_simp
  have k1: "\<not> rec_re_keyword (js_lower (json_row ?r))" by code_simp
  have e1: "\<exists>(k, c) \<in> set ?r. js_includes k ''nr'' \<or> (\<exists>s. c = CStr s \<and> js_includes s [CHR 0x0A, CHR ''r''])"
    by simp
  have p2: "phase_one ?q = None" by code_simp
  have k2: "\<not> rec_re_keyword (js_lower (json_row ?q))" by code_simp
  have e2: "\<exists>(k, c) \<in> set ?q. js_includes k ''nr'' \<or> (\<exists>s. c = CStr s \<and> js_includes s [CHR 0x0A, CHR ''r''])"
    by simp
  show ?thesis
    using detectStatut_text_reads_keys_and_escapes [OF p1 k1 e1]
      detectStatut_text_reads_keys_and_escapes [OF p2 k2 e2] by simp
qed

end
