(* ===== verification/Normalize.thy ===== *)
theory Normalize
  imports Type_Classifier Status_Classifier
begin

text \<open>
  The normalization pipeline \<open>normalizeData\<close> (\<open>app.js\<close> lines 124 to 155). Each row's
  equipment cell is resolved; a falsy one skips the row; a truthy string is kept when its
  \<open>trim()\<close> is not empty; a truthy number or boolean has no \<open>trim\<close> method, so the call
  throws a \<open>TypeError\<close> that aborts the whole \<open>forEach\<close>, and no array is returned.
  The record keeps the cells as the source keeps them (a resolved field may be a number);
  \<open>type\<close> is computed from \<open>row['\<acute>etablissement'] || ''\<close> only and \<open>statut\<close> from the
  raw row.
\<close>

datatype js_error = TypeError string

record mrec =
  equipement :: string
  marque :: cell
  inventaire :: cell
  serie :: cell
  etablissement :: cell
  etype :: etype
  panne :: cell
  technicien :: cell
  statut :: statut
  date :: cell

text \<open>The record built for a row whose equipment is the string \<open>s\<close> (lines 137 to 148).\<close>

definition mk_record :: "row \<Rightarrow> string \<Rightarrow> mrec" where
  "mk_record r s =
     \<lparr>equipement = s,
      marque = resolve r marque_keys,
      inventaire = resolve r inventaire_keys,
      serie = resolve r serie_keys,
      etablissement = resolve r etablissement_keys,
      etype = detectType (js_or [get r (e_acute # ''tablissement'')]),
      panne = resolve r panne_keys,
      technicien = resolve r technicien_keys,
      statut = detectStatut r,
      date = resolve r date_keys\<rparr>"

text \<open>One iteration of the \<open>forEach\<close> body (lines 133 to 151): the record pushed, if any.\<close>

definition normalize_row :: "row \<Rightarrow> js_error + mrec option" where
  "normalize_row r =
     (let e = resolve r equipement_keys in
      if \<not> truthy e then Inr None
      else (case e of
              CStr s \<Rightarrow> if js_trim s \<noteq> [] then Inr (Some (mk_record r s)) else Inr None
            | _ \<Rightarrow> Inl (TypeError ''equipement.trim is not a function'')))"

fun normalize_rows :: "row list \<Rightarrow> js_error + mrec list" where
  "normalize_rows [] = Inr []"
| "normalize_rows (r # rs) =
     (case normalize_row r of
        Inl err \<Rightarrow> Inl err
      | Inr None \<Rightarrow> normalize_rows rs
      | Inr (Some m) \<Rightarrow> (case normalize_rows rs of Inl err \<Rightarrow> Inl err | Inr ms \<Rightarrow> Inr (m # ms)))"

definition normalizeData :: "row list \<Rightarrow> js_error + mrec list" where
  "normalizeData data = (if data = [] then Inr [] else normalize_rows data)"

subsection \<open>Row classification\<close>

text \<open>A row is kept when its equipment is a string with a non-blank character, and it makes
  the pipeline throw when its equipment is a truthy non-string.\<close>

definition equip_ok :: "row \<Rightarrow> bool" where
  "equip_ok r = (case resolve r equipement_keys of CStr s \<Rightarrow> js_trim s \<noteq> [] | _ \<Rightarrow> False)"

definition equip_bad :: "row \<Rightarrow> bool" where
  "equip_bad r = (case resolve r equipement_keys of CStr s \<Rightarrow> False | c \<Rightarrow> truthy c)"

definition record_of :: "row \<Rightarrow> mrec" where
  "record_of r = mk_record r (to_str (resolve r equipement_keys))"

lemma normalize_row_ok: "equip_ok r \<Longrightarrow> normalize_row r = Inr (Some (record_of r))"
  by (auto simp: normalize_row_def equip_ok_def record_of_def Let_def split: cell.splits)

lemma normalize_row_skip:
  "\<not> equip_ok r \<Longrightarrow> \<not> equip_bad r \<Longrightarrow> normalize_row r = Inr None"
  by (auto simp: normalize_row_def equip_ok_def equip_bad_def Let_def split: cell.splits)

lemma normalize_row_bad: "equip_bad r \<Longrightarrow> \<exists>err. normalize_row r = Inl err"
  by (auto simp: normalize_row_def equip_bad_def Let_def split: cell.splits)

lemma normalize_rows_spec:
  "\<forall>r \<in> set rs. \<not> equip_bad r \<Longrightarrow> normalize_rows rs = Inr (map record_of (filter equip_ok rs))"
  by (induction rs) (auto simp: normalize_row_ok normalize_row_skip)

lemma normalize_rows_error:
  "\<exists>r \<in> set rs. equip_bad r \<Longrightarrow> \<exists>err. normalize_rows rs = Inl err"
proof (induction rs)
  case Nil
  then show ?case by simp
next
  case (Cons r rs)
  show ?case
  proof (cases "equip_bad r")
    case True
    then show ?thesis by (auto dest: normalize_row_bad)
  next
    case False
    with Cons.prems obtain err where "normalize_rows rs = Inl err" using Cons.IH by auto
    with False show ?thesis
      by (cases "equip_ok r") (simp_all add: normalize_row_ok normalize_row_skip)
  qed
qed

lemma normalizeData_eq_rows: "normalizeData data = normalize_rows data"
  by (cases data) (simp_all add: normalizeData_def)

lemma normalizeData_Inr_no_bad:
  "normalizeData data = Inr ms \<Longrightarrow> \<forall>r \<in> set data. \<not> equip_bad r"
  using normalize_rows_error [of data] by (auto simp: normalizeData_eq_rows)

lemma normalizeData_Inr:
  "normalizeData data = Inr ms \<Longrightarrow> ms = map record_of (filter equip_ok data)"
  using normalizeData_Inr_no_bad [of data ms] normalize_rows_spec [of data]
  by (simp add: normalizeData_eq_rows)

lemma equip_ok_equipement:
  "equip_ok r \<Longrightarrow> js_trim (equipement (record_of r)) \<noteq> []"
  by (auto simp: equip_ok_def record_of_def mk_record_def split: cell.splits)

lemmas normalize_simps = normalizeData_eq_rows normalize_rows_spec normalize_row_ok normalize_row_skip

subsection \<open>Properties\<close>

text \<open>Claim C1 (pipeline): when no row has a numeric or boolean equipment value,
  \<open>normalizeData\<close> returns, in input order, one record for each row whose equipment
  is a string with a non-blank character, and drops the others.\<close>

theorem normalizeData_spec:
  "\<forall>r \<in> set rows. \<not> equip_bad r \<Longrightarrow> normalizeData rows = Inr (map record_of (filter equip_ok rows))"
  by (simp add: normalize_simps)

theorem normalizeData_spec_witness:
  "\<not> equip_bad [(''Equipement'', CStr ''PC'')] \<and> \<not> equip_bad [(''EQUIPEMENT'', CStr [])] \<and>
   normalizeData [[(''Equipement'', CStr ''PC'')], [(''EQUIPEMENT'', CStr [])]] =
     Inr [record_of [(''Equipement'', CStr ''PC'')]]"
proof -
  have b: "\<forall>r \<in> set [[(''Equipement'', CStr ''PC'')], [(''EQUIPEMENT'', CStr [])]]. \<not> equip_bad r"
    by code_simp
  have "filter equip_ok [[(''Equipement'', CStr ''PC'')], [(''EQUIPEMENT'', CStr [])]] =
        [[(''Equipement'', CStr ''PC'')]]" by code_simp
  with b normalizeData_spec [OF b] show ?thesis by simp
qed

text \<open>Claim C2 (type error): a row whose equipment resolves to a non-zero number or to
  \<open>true\<close> makes \<open>equipement.trim()\<close> throw, and the whole sheet yields no records.\<close>

theorem normalizeData_type_error:
  "\<exists>r \<in> set rows. equip_bad r \<Longrightarrow> \<exists>err. normalizeData rows = Inl err"
  by (simp add: normalizeData_eq_rows normalize_rows_error)

theorem normalizeData_type_error_witness:
  "(\<exists>r \<in> set [[(''Equipement'', CStr ''PC'')], [(''Equipement'', CNum 4021)]]. equip_bad r) \<and>
   (\<exists>err. normalizeData [[(''Equipement'', CStr ''PC'')], [(''Equipement'', CNum 4021)]] = Inl err)"
proof -
  have b: "\<exists>r \<in> set [[(''Equipement'', CStr ''PC'')], [(''Equipement'', CNum 4021)]]. equip_bad r"
    by code_simp
  show ?thesis using b normalizeData_type_error [OF b] by blast
qed

text \<open>Claim C3 (record invariant): every record the pipeline returns has an equipment value
  with a non-blank character.\<close>

theorem normalizeData_equipment_nonblank:
  "normalizeData rows = Inr ms \<Longrightarrow> \<forall>m \<in> set ms. js_trim (equipement m) \<noteq> []"
proof
  fix m
  assume "normalizeData rows = Inr ms" and "m \<in> set ms"
  then obtain r where "equip_ok r" and "m = record_of r"
    using normalizeData_Inr [of rows ms] by auto
  then show "js_trim (equipement m) \<noteq> []" by (simp add: equip_ok_equipement)
qed

theorem normalizeData_equipment_nonblank_witness:
  "normalizeData [[(''Equipement'', CStr '' PC '')]] = Inr [record_of [(''Equipement'', CStr '' PC '')]] \<and>
   js_trim (equipement (record_of [(''Equipement'', CStr '' PC '')])) \<noteq> []"
proof -
  have n: "normalizeData [[(''Equipement'', CStr '' PC '')]] = Inr [record_of [(''Equipement'', CStr '' PC '')]]"
    by code_simp
  show ?thesis using n normalizeData_equipment_nonblank [OF n] by simp
qed

text \<open>Claim C4 (counting): the pipeline returns at most as many records as rows, and as
  many exactly when every row has a non-blank string equipment value.\<close>

theorem normalizeData_length:
  "normalizeData rows = Inr ms \<Longrightarrow>
   length ms \<le> length rows \<and> (length ms = length rows \<longleftrightarrow> (\<forall>r \<in> set rows. equip_ok r))"
proof -
  assume "normalizeData rows = Inr ms"
  from normalizeData_Inr [OF this] have l: "length ms = length (filter equip_ok rows)" by simp
  have "length (filter equip_ok rows) = length rows \<longleftrightarrow> (\<forall>r \<in> set rows. equip_ok r)"
    using length_filter_less [of _ rows equip_ok] by (metis filter_True less_irrefl)
  with l show ?thesis by simp
qed

theorem normalizeData_length_witness:
  "normalizeData [[(''Equipement'', CStr ''PC'')], [(''Marque'', CStr ''HP'')]] = Inr [record_of [(''Equipement'', CStr ''PC'')]] \<and>
   \<not> (\<forall>r \<in> set [[(''Equipement'', CStr ''PC'')], [(''Marque'', CStr ''HP'')]]. equip_ok r)"
proof -
  have n: "normalizeData [[(''Equipement'', CStr ''PC'')], [(''Marque'', CStr ''HP'')]] =
           Inr [record_of [(''Equipement'', CStr ''PC'')]]" by code_simp
  show ?thesis using n normalizeData_length [OF n] by simp
qed

text \<open>Claim C15 (type from one spelling only): the facility type is computed from the column
  spelled \<open>\<acute>etablissement\<close> only: a row without that column gets the type \<open>Autre\<close>,
  whatever facility it gives under \<open>Etablissement\<close> or \<open>ETABLISSEMENT\<close>.\<close>

theorem record_type_ignores_alias:
  "get r (e_acute # ''tablissement'') = None \<Longrightarrow> etype (record_of r) = Autre"
  by (simp add: record_of_def mk_record_def detectType_def Let_def js_upper_def)

theorem record_type_ignores_alias_witness:
  "get [(''Equipement'', CStr ''PC''), (''Etablissement'', CStr ''CEM Ibn Khaldoun'')] (e_acute # ''tablissement'') = None \<and>
   etablissement (record_of [(''Equipement'', CStr ''PC''), (''Etablissement'', CStr ''CEM Ibn Khaldoun'')])
     = CStr ''CEM Ibn Khaldoun'' \<and>
   etype (record_of [(''Equipement'', CStr ''PC''), (''Etablissement'', CStr ''CEM Ibn Khaldoun'')]) = Autre"
proof -
  have g: "get [(''Equipement'', CStr ''PC''), (''Etablissement'', CStr ''CEM Ibn Khaldoun'')] (e_acute # ''tablissement'') = None"
    by (simp add: get_def)
  have "etablissement (record_of [(''Equipement'', CStr ''PC''), (''Etablissement'', CStr ''CEM Ibn Khaldoun'')])
        = CStr ''CEM Ibn Khaldoun''" by code_simp
  then show ?thesis using g record_type_ignores_alias [OF g] by simp
qed

end
