(* ===== verification/Filters.thy ===== *)
theory Filters
  imports Normalize
begin

text \<open>
  The filter engine: the predicate inside \<open>applyFilters\<close> (\<open>app.js\<close> lines 209 to 231)
  over the four \<open><select>\<close> values, and the counts the display derives from the filtered
  view: \<open>updateStats\<close> (lines 255 to 266), the status chart's and the type chart's label
  to count tables (lines 283 to 287 and 339 to 345). The state around them (the global
  arrays and the early return of \<open>applyFilters\<close>) is in theory \<open>App\<close>.
\<close>

record selection =
  wilayaF :: string
  typeF :: string
  technicienF :: string
  statutF :: string

definition row_passes :: "selection \<Rightarrow> mrec \<Rightarrow> bool" where
  "row_passes sel row =
     (if wilayaF sel \<noteq> ''all'' \<and> wilayaF sel \<noteq> ''El Bayadh'' then False
      else if typeF sel \<noteq> ''all'' \<and> etype_label (etype row) \<noteq> typeF sel then False
      else if technicienF sel \<noteq> ''all'' \<and> technicien row \<noteq> CStr (technicienF sel) then False
      else if statutF sel \<noteq> ''all'' \<and> statut_code (statut row) \<noteq> statutF sel then False
      else True)"

definition filter_data :: "selection \<Rightarrow> mrec list \<Rightarrow> mrec list" where
  "filter_data sel rows = filter (row_passes sel) rows"

definition all_selection :: selection where
  "all_selection = \<lparr>wilayaF = ''all'', typeF = ''all'', technicienF = ''all'', statutF = ''all''\<rparr>"

subsection \<open>Counts\<close>

definition count_code :: "mrec list \<Rightarrow> string \<Rightarrow> nat" where
  "count_code rows c = length (filter (\<lambda>d. statut_code (statut d) = c) rows)"

definition count_type :: "mrec list \<Rightarrow> string \<Rightarrow> nat" where
  "count_type rows t = length (filter (\<lambda>d. etype_label (etype d) = t) rows)"

text \<open>\<open>updateStats\<close>: total, received, repaired, not repaired.\<close>

definition update_stats :: "mrec list \<Rightarrow> nat \<times> nat \<times> nat \<times> nat" where
  "update_stats rows =
     (length rows, count_code rows ''rec'', count_code rows ''re'', count_code rows ''nr'')"

definition status_counts :: "mrec list \<Rightarrow> (string \<times> nat) list" where
  "status_counts rows =
     [(''Re'' @ [c_cedil] @ ''us'', count_code rows ''rec''),
      (''R'' @ [e_acute] @ ''par'' @ [e_acute] @ ''s'', count_code rows ''re''),
      (''Non r'' @ [e_acute] @ ''par'' @ [e_acute] @ ''s'', count_code rows ''nr'')]"

definition type_counts :: "mrec list \<Rightarrow> (string \<times> nat) list" where
  "type_counts rows =
     [(''EP'', count_type rows ''EP''), (''CEM'', count_type rows ''CEM''),
      (''Lyc'' @ [e_acute] @ ''e'', count_type rows (''Lyc'' @ [e_acute] @ ''e'')),
      (''Direction'', count_type rows ''Direction''), (''Autre'', count_type rows ''Autre'')]"

definition sample_rec :: mrec where
  "sample_rec = record_of [(''Equipement'', CStr ''PC-01''), (E_acute # ''tablissement'', CStr ''CEM Ibn Khaldoun'')]"

subsection \<open>Lemmas\<close>

lemma row_passes_all [simp]: "row_passes all_selection r"
  by (simp add: row_passes_def all_selection_def)

lemma count_code_statut:
  "count_code rows (statut_code s) = length (filter (\<lambda>d. statut d = s) rows)"
  by (simp add: count_code_def statut_code_inj)

lemma count_type_etype:
  "count_type rows (etype_label t) = length (filter (\<lambda>d. etype d = t) rows)"
  by (simp add: count_type_def etype_label_inj)

lemma length_filter_statut:
  "length (filter (\<lambda>d. statut d = Rec) rows) + length (filter (\<lambda>d. statut d = Re) rows)
   + length (filter (\<lambda>d. statut d = Nr) rows) = length rows"
proof (induction rows)
  case (Cons d rows)
  then show ?case by (cases "statut d") auto
qed simp

lemma length_filter_etype:
  "length (filter (\<lambda>d. etype d = EP) rows) + length (filter (\<lambda>d. etype d = CEM) rows)
   + length (filter (\<lambda>d. etype d = Lycee) rows) + length (filter (\<lambda>d. etype d = Direction) rows)
   + length (filter (\<lambda>d. etype d = Autre) rows) = length rows"
proof (induction rows)
  case (Cons d rows)
  then show ?case by (cases "etype d") auto
qed simp

lemmas count_simps = count_code_statut [of _ Rec, simplified] count_code_statut [of _ Re, simplified]
  count_code_statut [of _ Nr, simplified]

lemmas type_count_simps = count_type_etype [of _ EP, simplified] count_type_etype [of _ CEM, simplified]
  count_type_etype [of _ Lycee, simplified] count_type_etype [of _ Direction, simplified]
  count_type_etype [of _ Autre, simplified]

subsection \<open>Properties\<close>

text \<open>Claim C20 (match all): with every select on \<open>all\<close>, the filtered view is the
  loaded records, same elements in the same order.\<close>

theorem filter_all_identity: "filter_data all_selection rows = rows"
  by (simp add: filter_data_def)

text \<open>Claim C21 (region): the region filter does not look at the records: any region other
  than \<open>all\<close> and \<open>El Bayadh\<close> empties the view.\<close>

theorem filter_other_wilaya_empty:
  "wilayaF sel \<noteq> ''all'' \<Longrightarrow> wilayaF sel \<noteq> ''El Bayadh'' \<Longrightarrow> filter_data sel rows = []"
  by (simp add: filter_data_def row_passes_def)

theorem filter_other_wilaya_empty_witness:
  "''Oran'' \<noteq> ''all'' \<and> ''Oran'' \<noteq> ''El Bayadh'' \<and>
   filter_data (all_selection\<lparr>wilayaF := ''Oran''\<rparr>) [sample_rec] = []"
proof -
  have a: "wilayaF (all_selection\<lparr>wilayaF := ''Oran''\<rparr>) \<noteq> ''all''" by simp
  have b: "wilayaF (all_selection\<lparr>wilayaF := ''Oran''\<rparr>) \<noteq> ''El Bayadh''" by simp
  show ?thesis using filter_other_wilaya_empty [OF a b, of "[sample_rec]"] by simp
qed

text \<open>Claim C22 (numeric technician): the technician filter compares with strict equality
  against the select's string, so a record whose technician cell is a number never passes a
  technician filter.\<close>

theorem filter_numeric_technician:
  "technicienF sel \<noteq> ''all'' \<Longrightarrow> technicien r = CNum n \<Longrightarrow> \<not> row_passes sel r"
  by (simp add: row_passes_def)

theorem filter_numeric_technician_witness:
  "technicienF (all_selection\<lparr>technicienF := ''12''\<rparr>) \<noteq> ''all'' \<and>
   technicien (sample_rec\<lparr>technicien := CNum 12\<rparr>) = CNum 12 \<and>
   \<not> row_passes (all_selection\<lparr>technicienF := ''12''\<rparr>) (sample_rec\<lparr>technicien := CNum 12\<rparr>)"
proof -
  have a: "technicienF (all_selection\<lparr>technicienF := ''12''\<rparr>) \<noteq> ''all''" by simp
  have b: "technicien (sample_rec\<lparr>technicien := CNum 12\<rparr>) = CNum 12" by simp
  show ?thesis using a b filter_numeric_technician [OF a b] by simp
qed

text \<open>Claim C23 (status counts): the three status counts shown in the chart add up to the
  number of records in the view.\<close>

theorem status_counts_total: "sum_list (map snd (status_counts rows)) = length rows"
  using length_filter_statut [of rows]
  by (simp add: status_counts_def count_code_statut [of _ Rec, simplified]
       count_code_statut [of _ Re, simplified] count_code_statut [of _ Nr, simplified])

text \<open>Type counts: the five facility-type counts shown in the bar chart add up to
  the number of records in the view.\<close>

theorem type_counts_total: "sum_list (map snd (type_counts rows)) = length rows"
  using length_filter_etype [of rows] by (simp add: type_counts_def type_count_simps)

end
