(* ===== verification/Export.thy ===== *)
theory Export
  imports Filters
begin

text \<open>
  The CSV exporter \<open>exportToCSV\<close> (\<open>app.js\<close> lines 479 to 515): an empty view is refused
  with an alert; otherwise a fixed, unquoted header line and one line per record, each field
  written as \<open>"${value}"\<close> with no escaping, fields joined by commas, lines by \<open>\n\<close>;
  the blob is downloaded as \<open>maintenance_<sheet>_<date>.csv\<close>. \<open>csv_read\<close> is a
  reader in the style of RFC 4180 (a quote opens and closes a quoted field, two quotes inside
  one stand for a quote): the consumer the exported file is written for, used to state the
  round trip.
\<close>

abbreviation dquote :: char where "dquote \<equiv> CHR 0x22"
abbreviation newline :: char where "newline \<equiv> CHR 0x0A"

definition csv_headers :: "string list" where
  "csv_headers =
     [E_acute # ''quipement'', ''Marque'', ''Inventaire'', ''N'' @ [degree_sign] @ '' S'' @ [e_acute] @ ''rie'',
      E_acute # ''tablissement'', ''Type'', ''Panne'', ''Technicien'', ''Statut'', ''Date'']"

text \<open>The ten values a record contributes, each as the template literal converts it.\<close>

definition csv_fields :: "mrec \<Rightarrow> string list" where
  "csv_fields row =
     [equipement row, to_str (marque row), to_str (inventaire row), to_str (serie row),
      to_str (etablissement row), etype_label (etype row), to_str (panne row),
      to_str (technicien row), statut_code (statut row), to_str (date row)]"

definition csv_quote :: "string \<Rightarrow> string" where
  "csv_quote s = dquote # s @ [dquote]"

definition csv_line :: "mrec \<Rightarrow> string" where
  "csv_line row = js_join '','' (map csv_quote (csv_fields row))"

definition csv_string :: "mrec list \<Rightarrow> string" where
  "csv_string rows = js_join [newline] (js_join '','' csv_headers # map csv_line rows)"

definition export_filename :: "string \<Rightarrow> string \<Rightarrow> string" where
  "export_filename sheet isodate =
     ''maintenance_'' @ sheet @ ''_'' @ takeWhile (\<lambda>c. c \<noteq> CHR ''T'') isodate @ ''.csv''"

definition no_data_alert :: string where
  "no_data_alert = ''Aucune donn'' @ [e_acute] @ ''e '' @ [CHR 0xE0] @ '' exporter''"

text \<open>The alert text, or the downloaded file's name and content.\<close>

definition export_csv :: "mrec list \<Rightarrow> string \<Rightarrow> string \<Rightarrow> string + (string \<times> string)" where
  "export_csv rows sheet isodate =
     (if rows = [] then Inl no_data_alert
      else Inr (export_filename sheet isodate, csv_string rows))"

subsection \<open>Reading CSV\<close>

text \<open>State: inside quotes, the current field and record reversed, the records read.\<close>

fun csv_read :: "bool \<Rightarrow> string \<Rightarrow> string list \<Rightarrow> string list list \<Rightarrow> string \<Rightarrow> string list list" where
  "csv_read q f fs rs [] = rev (rev (rev f # fs) # rs)"
| "csv_read False f fs rs (c # cs) =
     (if c = dquote then csv_read True f fs rs cs
      else if c = CHR '','' then csv_read False [] (rev f # fs) rs cs
      else if c = newline then csv_read False [] [] (rev (rev f # fs) # rs) cs
      else csv_read False (c # f) fs rs cs)"
| "csv_read True f fs rs (c # cs) =
     (if c = dquote then
        (case cs of
           d # cs' \<Rightarrow> if d = dquote then csv_read True (dquote # f) fs rs cs'
                      else csv_read False f fs rs cs
         | [] \<Rightarrow> csv_read False f fs rs cs)
      else csv_read True (c # f) fs rs cs)"

definition csv_parse :: "string \<Rightarrow> string list list" where
  "csv_parse s = csv_read False [] [] [] s"

subsection \<open>Lemmas\<close>

text \<open>What may follow a field: the end, a comma or a line break.\<close>

definition field_end :: "string \<Rightarrow> bool" where
  "field_end rest = (case rest of [] \<Rightarrow> True | c # _ \<Rightarrow> c = CHR '','' \<or> c = newline)"

definition quote_free :: "mrec \<Rightarrow> bool" where
  "quote_free r = (\<forall>x \<in> set (csv_fields r). dquote \<notin> set x)"

definition sample_record :: mrec where
  "sample_record =
     \<lparr>equipement = ''PC-01'', marque = CStr ''Dell, Inc.'', inventaire = CNum 1204,
      serie = CStr [], etablissement = CStr ''CEM Ibn Khaldoun'', etype = CEM,
      panne = CStr ''Ecran'', technicien = CStr ''Ali'', statut = Rec, date = CStr []\<rparr>"

lemma csv_read_quoted_body:
  "dquote \<notin> set s \<Longrightarrow> field_end rest \<Longrightarrow>
   csv_read True f fs rs (s @ dquote # rest) = csv_read False (rev s @ f) fs rs rest"
  by (induction s arbitrary: f) (auto simp: field_end_def split: list.splits)

lemma csv_read_quoted:
  "dquote \<notin> set s \<Longrightarrow> field_end rest \<Longrightarrow>
   csv_read False [] fs rs (csv_quote s @ rest) = csv_read False (rev s) fs rs rest"
  using csv_read_quoted_body [of s rest "[]"] by (simp add: csv_quote_def)

lemma csv_read_raw:
  "\<forall>c \<in> set s. c \<noteq> dquote \<and> c \<noteq> CHR '','' \<and> c \<noteq> newline \<Longrightarrow>
   csv_read False f fs rs (s @ rest) = csv_read False (rev s @ f) fs rs rest"
  by (induction s arbitrary: f) auto

text \<open>A line of fields, each read back by the field lemma of its encoding.\<close>

lemma csv_read_line:
  assumes "xs \<noteq> []" and "field_end rest"
    and enc: "\<And>x fs rs rest. x \<in> set xs \<Longrightarrow> field_end rest \<Longrightarrow>
                csv_read False [] fs rs (e x @ rest) = csv_read False (rev x) fs rs rest"
  shows "csv_read False [] fs rs (js_join '','' (map e xs) @ rest) =
         csv_read False (rev (last xs)) (rev (butlast xs) @ fs) rs rest"
  using assms
proof (induction xs arbitrary: fs)
  case Nil
  then show ?case by simp
next
  case (Cons x xs)
  show ?case
  proof (cases xs)
    case Nil
    with Cons.prems show ?thesis by simp
  next
    case (Cons y ys)
    have "field_end ('','' @ js_join '','' (map e xs) @ rest)" by (simp add: field_end_def)
    with Cons.prems(3) [of x] have
      "csv_read False [] fs rs (e x @ '','' @ js_join '','' (map e xs) @ rest) =
       csv_read False [] (x # fs) rs (js_join '','' (map e xs) @ rest)" by simp
    also have "\<dots> = csv_read False (rev (last xs)) (rev (butlast xs) @ x # fs) rs rest"
      using Cons.IH [of "x # fs"] Cons.prems \<open>xs = y # ys\<close> by simp
    finally show ?thesis using \<open>xs = y # ys\<close> by simp
  qed
qed

lemma count_list_js_join:
  "count_list (js_join sep xs) c =
     sum_list (map (\<lambda>x. count_list x c) xs) + (length xs - 1) * count_list sep c"
  by (induction sep xs rule: js_join.induct) auto

lemma count_list_concat: "count_list (concat xs) c = sum_list (map (\<lambda>x. count_list x c) xs)"
  by (induction xs) simp_all

lemma count_list_csv_line:
  "count_list (csv_line r) newline = count_list (concat (csv_fields r)) newline"
  by (simp add: csv_line_def count_list_js_join count_list_concat csv_quote_def comp_def)

lemma csv_headers_raw:
  "\<forall>x \<in> set csv_headers. \<forall>c \<in> set x. c \<noteq> dquote \<and> c \<noteq> CHR '','' \<and> c \<noteq> newline"
  by (simp add: csv_headers_def)

lemma csv_fields_ne [simp]: "csv_fields r \<noteq> []"
  by (simp add: csv_fields_def)

lemma csv_read_header:
  "field_end rest \<Longrightarrow>
   csv_read False [] [] rs (js_join '','' csv_headers @ rest) =
   csv_read False (rev (last csv_headers)) (rev (butlast csv_headers)) rs rest"
  using csv_read_line [of csv_headers rest id "[]" rs] csv_headers_raw csv_read_raw
  by (simp add: csv_headers_def)

lemma csv_read_record:
  "quote_free r \<Longrightarrow> field_end rest \<Longrightarrow>
   csv_read False [] [] rs (csv_line r @ rest) =
   csv_read False (rev (last (csv_fields r))) (rev (butlast (csv_fields r))) rs rest"
proof -
  assume q: "quote_free r" and e: "field_end rest"
  have "\<And>x fs rs rest. x \<in> set (csv_fields r) \<Longrightarrow> field_end rest \<Longrightarrow>
          csv_read False [] fs rs (csv_quote x @ rest) = csv_read False (rev x) fs rs rest"
    using q by (auto simp: quote_free_def intro: csv_read_quoted)
  with e csv_read_line [of "csv_fields r" rest csv_quote "[]" rs] show ?thesis
    by (simp add: csv_line_def)
qed

lemma csv_read_close:
  "xs \<noteq> [] \<Longrightarrow> csv_read False (rev (last xs)) (rev (butlast xs)) rs (newline # cs) =
   csv_read False [] [] (xs # rs) cs"
  "xs \<noteq> [] \<Longrightarrow> csv_read False (rev (last xs)) (rev (butlast xs)) rs [] = rev (xs # rs)"
  by simp_all

lemma csv_read_records:
  "rows \<noteq> [] \<Longrightarrow> \<forall>r \<in> set rows. quote_free r \<Longrightarrow>
   csv_read False [] [] rs (js_join [newline] (map csv_line rows)) = rev rs @ map csv_fields rows"
proof (induction rows arbitrary: rs)
  case Nil
  then show ?case by simp
next
  case (Cons r rows)
  show ?case
  proof (cases rows)
    case Nil
    with Cons.prems csv_read_record [of r "[]" rs] show ?thesis
      by (simp add: field_end_def csv_read_close)
  next
    case (Cons r' rows')
    have "csv_read False [] [] rs (csv_line r @ newline # js_join [newline] (map csv_line rows)) =
          csv_read False [] [] (csv_fields r # rs) (js_join [newline] (map csv_line rows))"
      using Cons.prems csv_read_record [of r "newline # _" rs]
      by (simp add: field_end_def csv_read_close)
    with Cons.IH [of "csv_fields r # rs"] Cons.prems \<open>rows = r' # rows'\<close> show ?thesis by simp
  qed
qed

subsection \<open>Properties\<close>

text \<open>Claim C27 (round trip): when no exported value contains a double quote, reading the file
  written by \<open>exportToCSV\<close> with an RFC 4180 reader gives back the header row and then the
  ten values of every record, in order. Commas and line breaks inside values are protected by
  the quotes.\<close>

theorem csv_roundtrip:
  "\<forall>r \<in> set rows. quote_free r \<Longrightarrow> csv_parse (csv_string rows) = csv_headers # map csv_fields rows"
proof (cases rows)
  case Nil
  then show ?thesis
    using csv_read_header [of "[]" "[]"] csv_read_close(2) [of csv_headers "[]"]
    by (simp add: csv_parse_def csv_string_def field_end_def csv_headers_def)
next
  case (Cons r rows')
  assume q: "\<forall>r \<in> set rows. quote_free r"
  let ?body = "js_join [newline] (map csv_line rows)"
  have s: "csv_string rows = js_join '','' csv_headers @ newline # ?body"
    using Cons by (simp add: csv_string_def)
  have "csv_parse (csv_string rows) = csv_read False [] [] [csv_headers] ?body"
    using csv_read_header [of "newline # ?body" "[]"] csv_read_close(1) [of csv_headers "[]" ?body]
    by (simp add: s csv_parse_def field_end_def csv_headers_def)
  also have "\<dots> = csv_headers # map csv_fields rows"
    using csv_read_records [of rows "[csv_headers]"] q Cons by simp
  finally show ?thesis .
qed

theorem csv_roundtrip_witness:
  "quote_free sample_record \<and>
   csv_parse (csv_string [sample_record]) = [csv_headers, csv_fields sample_record]"
proof -
  have q: "quote_free sample_record"
    by (simp add: quote_free_def csv_fields_def sample_record_def int_to_str_def)
  show ?thesis using q csv_roundtrip [of "[sample_record]"] by simp
qed

text \<open>Claim C28 (line count): when no exported value contains a line break, the CSV text has
  exactly one line break per record, so it consists of the header line and one line per
  record.\<close>

theorem csv_line_count:
  "\<forall>r \<in> set rows. \<forall>x \<in> set (csv_fields r). newline \<notin> set x \<Longrightarrow>
   count_list (csv_string rows) newline = length rows"
proof -
  assume n: "\<forall>r \<in> set rows. \<forall>x \<in> set (csv_fields r). newline \<notin> set x"
  have h: "count_list (js_join '','' csv_headers) newline = 0"
    by (simp add: count_list_js_join csv_headers_def)
  have l: "count_list (csv_line r) newline = 0" if "r \<in> set rows" for r
  proof -
    have "\<forall>x \<in> set (csv_fields r). count_list (csv_quote x) newline = 0"
      using n that by (simp add: csv_quote_def count_list_0_iff)
    then show ?thesis
      by (simp add: csv_line_def count_list_js_join sum_list_eq_0_iff)
  qed
  then have "sum_list (map (\<lambda>x. count_list x newline) (map csv_line rows)) = 0"
    by (simp add: sum_list_eq_0_iff)
  with h show ?thesis by (simp add: csv_string_def count_list_js_join)
qed

theorem csv_line_count_witness:
  "newline \<notin> set (concat (csv_fields sample_record)) \<and>
   count_list (csv_string [sample_record, sample_record]) newline = 2"
proof -
  have n: "\<forall>r \<in> set [sample_record, sample_record]. \<forall>x \<in> set (csv_fields r). newline \<notin> set x"
    by (simp add: csv_fields_def sample_record_def int_to_str_def)
  show ?thesis using n csv_line_count [of "[sample_record, sample_record]"] by auto
qed

text \<open>Example (unescaped quotes): a value that contains a double quote is written without
  escaping, and an RFC 4180 reader does not get the record back.\<close>

theorem csv_quote_in_value_misread:
  "csv_parse (csv_string [sample_record\<lparr>marque := CStr (''HP '' @ [dquote] @ ''Pro'' @ [dquote])\<rparr>])
   \<noteq> [csv_headers, csv_fields (sample_record\<lparr>marque := CStr (''HP '' @ [dquote] @ ''Pro'' @ [dquote])\<rparr>)]"
  by code_simp

text \<open>Claim C29 (line breaks in values): the CSV text has one line break per record plus one
  for every line break inside an exported value: values are not escaped, so each line break in
  a value adds a line to the file.\<close>

theorem csv_newline_count:
  "count_list (csv_string rows) newline =
   length rows + sum_list (map (\<lambda>r. count_list (concat (csv_fields r)) newline) rows)"
proof -
  have h: "count_list (js_join '','' csv_headers) newline = 0"
    by (simp add: count_list_js_join csv_headers_def)
  have "sum_list (map (\<lambda>x. count_list x newline) (map csv_line rows)) =
        sum_list (map (\<lambda>r. count_list (concat (csv_fields r)) newline) rows)"
    by (simp add: count_list_csv_line comp_def)
  with h show ?thesis by (simp add: csv_string_def count_list_js_join)
qed

end
