(* ===== verification/Table.thy ===== *)
theory Table
  imports Normalize
begin

text \<open>
  The table rows written by \<open>updateTable\<close> (\<open>app.js\<close> lines 412 to 450) and
  \<open>escapeHtml\<close> (lines 473 to 477). \<open>escapeHtml\<close> sets a text node with
  \<open>textContent\<close> (which converts its value with \<open>String\<close>) and reads back
  \<open>innerHTML\<close>, whose serialisation of a text node escapes \<open>&\<close>, U+00A0, \<open><\<close>
  and \<open>>\<close> (HTML fragment serialisation algorithm). The date sort before the rows and the
  DataTables widget after them are in theory \<open>Display\<close>.
\<close>

definition html_esc :: "char \<Rightarrow> string" where
  "html_esc c =
     (if c = CHR ''&'' then ''&amp;''
      else if c = CHR 0xA0 then ''&nbsp;''
      else if c = CHR ''<'' then ''&lt;''
      else if c = CHR ''>'' then ''&gt;''
      else [c])"

definition escapeHtml :: "cell \<Rightarrow> string" where
  "escapeHtml text = concat (map html_esc (to_str text))"

text \<open>The status badge's text and class (the \<open>switch\<close> of lines 418 to 434).\<close>

fun statut_badge :: "statut \<Rightarrow> string \<times> string" where
  "statut_badge Rec = (''Re'' @ [c_cedil] @ ''u'', ''statut-rec'')"
| "statut_badge Re = (''R'' @ [e_acute] @ ''par'' @ [e_acute], ''statut-re'')"
| "statut_badge Nr = (''Non r'' @ [e_acute] @ ''par'' @ [e_acute], ''statut-nr'')"

definition td :: "string \<Rightarrow> string" where
  "td x = CHR 0x0A # replicate 12 (CHR '' '') @ ''<td>'' @ x @ ''</td>''"

text \<open>The template literal assigned to \<open>tr.innerHTML\<close>.\<close>

definition row_html :: "mrec \<Rightarrow> string" where
  "row_html row =
     (let (statutText, statutClass) = statut_badge (statut row) in
      td (escapeHtml (CStr (equipement row))) @ td (escapeHtml (marque row)) @
      td (escapeHtml (inventaire row)) @ td (escapeHtml (serie row)) @
      td (escapeHtml (etablissement row)) @ td (escapeHtml (CStr (etype_label (etype row)))) @
      td (escapeHtml (panne row)) @ td (escapeHtml (technicien row)) @
      td (''<span class='' @ [CHR 0x22] @ ''statut-badge '' @ statutClass @ [CHR 0x22] @ ''>'' @
          statutText @ ''</span>'') @
      td (escapeHtml (date row)) @ CHR 0x0A # replicate 8 (CHR '' ''))"

subsection \<open>Reading the cell text back\<close>

text \<open>What the browser shows for the markup assigned to \<open>tr.innerHTML\<close>, for the text of a
  cell: the input stream preprocessing turns CR LF and lone CR into LF; the tokenizer's data
  state decodes the character references \<open>&amp;\<close>, \<open>&nbsp;\<close>, \<open>&lt;\<close>, \<open>&gt;\<close> and
  passes the other characters through. A \<open><\<close> may open a tag and any other \<open>&\<close> starts a
  reference outside this subset; the reader then gives \<open>None\<close>.\<close>

abbreviation carriage_return :: char where "carriage_return \<equiv> CHR 0x0D"

fun html_newlines :: "string \<Rightarrow> string" where
  "html_newlines [] = []"
| "html_newlines [c] = (if c = carriage_return then [CHR 0x0A] else [c])"
| "html_newlines (c # d # cs) =
     (if c = carriage_return \<and> d = CHR 0x0A then CHR 0x0A # html_newlines cs
      else if c = carriage_return then CHR 0x0A # html_newlines (d # cs)
      else c # html_newlines (d # cs))"

function html_text :: "string \<Rightarrow> string option" where
  "html_text [] = Some []"
| "html_text (c # cs) =
     (if c = CHR ''<'' then None
      else if c = CHR ''&'' then
        (if take 4 cs = ''amp;'' then map_option (Cons (CHR ''&'')) (html_text (drop 4 cs))
         else if take 5 cs = ''nbsp;'' then map_option (Cons (CHR 0xA0)) (html_text (drop 5 cs))
         else if take 3 cs = ''lt;'' then map_option (Cons (CHR ''<'')) (html_text (drop 3 cs))
         else if take 3 cs = ''gt;'' then map_option (Cons (CHR ''>'')) (html_text (drop 3 cs))
         else None)
      else map_option (Cons c) (html_text cs))"
  by pat_completeness auto
termination
  by (relation "measure length") auto

definition html_read :: "string \<Rightarrow> string option" where
  "html_read s = html_text (html_newlines s)"

lemma html_newlines_Cons: "c \<noteq> carriage_return \<Longrightarrow> html_newlines (c # cs) = c # html_newlines cs"
  by (cases cs) simp_all

lemma html_esc_newline [simp]:
  "html_esc carriage_return = [carriage_return]" "html_esc (CHR 0x0A) = [CHR 0x0A]"
  by (simp_all add: html_esc_def)

lemma html_newlines_CR:
  "d \<noteq> CHR 0x0A \<Longrightarrow>
   html_newlines (carriage_return # html_esc d @ rest) = CHR 0x0A # html_newlines (html_esc d @ rest)"
  by (auto simp: html_esc_def)

lemma html_newlines_esc:
  "html_newlines (concat (map html_esc s)) = concat (map html_esc (html_newlines s))"
proof (induction s rule: html_newlines.induct)
  case (3 c d cs)
  show ?case
  proof (cases "c = carriage_return")
    case True
    with 3 show ?thesis by (cases "d = CHR 0x0A") (simp_all add: html_newlines_CR)
  next
    case False
    then have "html_newlines (html_esc c @ rest) = html_esc c @ html_newlines rest" for rest
      by (simp add: html_esc_def html_newlines_Cons)
    with False 3 show ?thesis by (simp add: html_newlines_Cons)
  qed
qed (simp_all add: html_esc_def)

lemma html_text_esc: "html_text (html_esc c @ rest) = map_option (Cons c) (html_text rest)"
  by (simp add: html_esc_def)

lemma count_escapeHtml: "count_list (escapeHtml x) (CHR ''<'') = 0 \<and> count_list (escapeHtml x) (CHR ''>'') = 0"
  by (simp add: escapeHtml_def count_list_0_iff html_esc_def)

subsection \<open>Properties\<close>

text \<open>Claim C30 (escape round trip): the browser shows in a table cell exactly the cell's string,
  with its line breaks normalised: the escaped text never opens markup and its character
  references decode back.\<close>

theorem escapeHtml_roundtrip: "html_read (escapeHtml c) = Some (html_newlines (to_str c))"
proof -
  have "html_text (concat (map html_esc s)) = Some s" for s
    by (induction s) (simp_all add: html_text_esc)
  then show ?thesis by (simp add: html_read_def escapeHtml_def html_newlines_esc)
qed

text \<open>Claim C31 (no markup injection): whatever a record's cells contain, its table row has
  exactly the 22 tag brackets of the template: cell text cannot open or close an element.\<close>

theorem row_html_markup_fixed:
  "count_list (row_html r) (CHR ''<'') = 22 \<and> count_list (row_html r) (CHR ''>'') = 22"
  by (cases "statut r") (simp_all add: row_html_def td_def count_escapeHtml)

end
