(* ===== verification/Display.thy ===== *)
theory Display
  imports Filters Table "HOL-Library.Multiset"
begin

text \<open>
  The display layer: \<open>updateDisplay\<close> (\<open>app.js\<close> lines 248 to 252) and the functions
  it calls. \<open>updateStats\<close> (255 to 266) writes four counters; \<open>updateCharts\<close> (269 to
  272) calls \<open>updateStatusChart\<close> and \<open>updateTypeChart\<close> (275 to 397), which destroy the
  chart that \<open>window.statusChart\<close> (resp. \<open>window.typeChart\<close>) holds, if it holds one,
  and create a new one; \<open>updateTable\<close> (400 to 470) sorts the view by date, writes one
  table row per record, and destroys and re-creates the DataTables widget held in the global
  \<open>dataTable\<close>.

  The Chart.js and DataTables objects are modelled by what the code does with them and by the
  effect of the library calls on the page: each constructor call appends an instance (its
  configuration and a live flag) to an explicit store, and \<open>destroy()\<close> clears the live
  flag of the instance the global refers to. A DataTables instance also keeps the rows it took
  from the table body when it was created, and its \<open>destroy()\<close> puts them back into the
  body. The drawing inside the two libraries (and DataTables' own ordering and paging) is not
  modelled.

  The date sort calls \<open>new Date(...)\<close> on cell values. For a number the time value is the
  number itself (within the range of \<open>TimeClip\<close>); for a string it is whatever the engine's
  date parser gives, which ECMAScript fixes only for its ISO format. The parser is therefore a
  parameter of the model (\<open>string \<Rightarrow> int option\<close>, \<open>None\<close> for \<open>NaN\<close>), kept in the display
  state. \<open>Array.prototype.sort\<close> is stable; for a consistent comparator its result is the
  unique stable sorted permutation, which the insertion sort \<open>js_sort\<close> computes.
\<close>

subsection \<open>Dates\<close>

text \<open>\<open>TimeClip\<close>: time values beyond 8.64e15 ms from the epoch are \<open>NaN\<close>.\<close>

definition time_clip :: "int \<Rightarrow> int option" where
  "time_clip t = (if \<bar>t\<bar> \<le> 8640000000000000 then Some t else None)"

text \<open>\<open>new Date(v)\<close> for a cell \<open>v\<close>, as a time value: a string is parsed, a number or a
  boolean is converted with \<open>ToNumber\<close>.\<close>

fun date_time :: "(string \<Rightarrow> int option) \<Rightarrow> cell \<Rightarrow> int option" where
  "date_time parse (CStr s) = Option.bind (parse s) time_clip"
| "date_time parse (CNum n) = time_clip n"
| "date_time parse (CBool b) = time_clip (if b then 1 else 0)"

text \<open>The comparator of lines 405 to 409: records without a date go after, the others by
  \<open>new Date(b.date) - new Date(a.date)\<close>, which is \<open>NaN\<close> (\<open>None\<close>) when either date is
  invalid. Both time values lie within 8.64e15, so the sign of their floating-point difference
  is the sign of the exact difference used here.\<close>

definition date_cmp :: "(string \<Rightarrow> int option) \<Rightarrow> mrec \<Rightarrow> mrec \<Rightarrow> int option" where
  "date_cmp parse a b =
     (if \<not> truthy (date a) then Some 1
      else if \<not> truthy (date b) then Some (-1)
      else (case (date_time parse (date b), date_time parse (date a)) of
              (Some tb, Some ta) \<Rightarrow> Some (tb - ta)
            | _ \<Rightarrow> None))"

subsection \<open>Array.prototype.sort\<close>

text \<open>\<open>SortCompare\<close>: a comparator result \<open>NaN\<close> counts as \<open>+0\<close>.\<close>

definition sort_compare :: "('a \<Rightarrow> 'a \<Rightarrow> int option) \<Rightarrow> 'a \<Rightarrow> 'a \<Rightarrow> int" where
  "sort_compare cmp x y = (case cmp x y of None \<Rightarrow> 0 | Some v \<Rightarrow> v)"

text \<open>A stable sort by the comparator: an element goes before the first element it does not
  compare greater than.\<close>

fun insort_cmp :: "('a \<Rightarrow> 'a \<Rightarrow> int) \<Rightarrow> 'a \<Rightarrow> 'a list \<Rightarrow> 'a list" where
  "insort_cmp c x [] = [x]"
| "insort_cmp c x (y # ys) = (if c x y \<le> 0 then x # y # ys else y # insort_cmp c x ys)"

definition js_sort :: "('a \<Rightarrow> 'a \<Rightarrow> int) \<Rightarrow> 'a list \<Rightarrow> 'a list" where
  "js_sort c xs = foldr (insort_cmp c) xs []"

text \<open>\<open>[...filteredData].sort(...)\<close> followed by one \<open>tr\<close> per record (lines 402 to 450).\<close>

definition table_rows :: "(string \<Rightarrow> int option) \<Rightarrow> mrec list \<Rightarrow> string list" where
  "table_rows parse fd = map row_html (js_sort (sort_compare (date_cmp parse)) fd)"

text \<open>The order the comparator means for records with a valid date: latest first.\<close>

definition dated :: "(string \<Rightarrow> int option) \<Rightarrow> mrec \<Rightarrow> bool" where
  "dated parse m = (truthy (date m) \<and> date_time parse (date m) \<noteq> None)"

definition date_key :: "(string \<Rightarrow> int option) \<Rightarrow> mrec \<Rightarrow> int" where
  "date_key parse m = (case date_time parse (date m) of Some t \<Rightarrow> - t | None \<Rightarrow> 0)"

subsection \<open>Charts\<close>

abbreviation apos :: char where "apos \<equiv> CHR 0x27"

text \<open>The parts of a Chart.js configuration the code sets: the chart type, the labels and
  data of the one dataset (\<open>Object.keys\<close> and \<open>Object.values\<close> of the count object, in
  insertion order), its label, colours and border, the legend position (\<open>None\<close> when
  \<open>display: false\<close>), the title, and the axis titles of a bar chart. The options \<open>responsive\<close>,
  \<open>maintainAspectRatio\<close>, \<open>beginAtZero\<close>, font sizes and paddings only affect drawing and
  are not modelled.\<close>

record chart_cfg =
  chart_type :: string
  chart_labels :: "string list"
  dataset_label :: "string option"
  chart_data :: "nat list"
  chart_colors :: "string list"
  border_width :: nat
  border_color :: "string option"
  legend_pos :: "string option"
  title_text :: string
  axis_titles :: "string list"

text \<open>The configuration built by \<open>updateStatusChart\<close> (lines 283 to 327).\<close>

definition status_cfg :: "mrec list \<Rightarrow> chart_cfg" where
  "status_cfg fd =
     \<lparr>chart_type = ''doughnut'', chart_labels = map fst (status_counts fd), dataset_label = None,
      chart_data = map snd (status_counts fd), chart_colors = [''#4299e1'', ''#48bb78'', ''#f56565''],
      border_width = 2, border_color = Some ''#fff'', legend_pos = Some ''bottom'',
      title_text = ''R'' @ [e_acute] @ ''partition par Statut'', axis_titles = []\<rparr>"

text \<open>The configuration built by \<open>updateTypeChart\<close> (lines 339 to 396).\<close>

definition type_cfg :: "mrec list \<Rightarrow> chart_cfg" where
  "type_cfg fd =
     \<lparr>chart_type = ''bar'', chart_labels = map fst (type_counts fd),
      dataset_label = Some (''Nombre d'' @ [apos, e_acute] @ ''quipements''),
      chart_data = map snd (type_counts fd),
      chart_colors = [''#667eea'', ''#764ba2'', ''#f687b3'', ''#f6ad55'', ''#cbd5e0''],
      border_width = 1, border_color = None, legend_pos = None,
      title_text = ''R'' @ [e_acute] @ ''partition par Type d'' @ [apos, E_acute] @ ''tablissement'',
      axis_titles = [''Nombre d'' @ [apos, e_acute] @ ''quipements'', ''Type d'' @ [apos, e_acute] @ ''tablissement'']\<rparr>"

text \<open>The DataTables options of lines 457 to 469.\<close>

record dt_cfg =
  lang_url :: string
  page_length :: nat
  length_menu :: "nat list"
  dt_order :: "(nat \<times> string) list"
  dom_layout :: string
  dt_buttons :: "string list"
  dt_responsive :: bool

definition table_cfg :: dt_cfg where
  "table_cfg =
     \<lparr>lang_url = ''//cdn.datatables.net/plug-ins/1.13.4/i18n/fr-FR.json'', page_length = 10,
      length_menu = [5, 10, 25, 50, 100], dt_order = [(9, ''desc'')], dom_layout = ''Bfrtip'',
      dt_buttons = [''copy'', ''csv'', ''excel'', ''pdf'', ''print''], dt_responsive = True\<rparr>"

subsection \<open>Library instances\<close>

text \<open>The instances a constructor has created, in creation order, each with its configuration
  and whether it is still live; a global holds the index of one of them or nothing.\<close>

type_synonym 'a store = "('a \<times> bool) list"

text \<open>\<open>if (g) g.destroy()\<close>: the instance the global refers to is no longer live.\<close>

definition destroy :: "nat option \<Rightarrow> 'a store \<Rightarrow> 'a store" where
  "destroy p xs = (case p of None \<Rightarrow> xs | Some i \<Rightarrow> xs[i := (fst (xs ! i), False)])"

text \<open>\<open>g = new C(cfg)\<close>: a new live instance, whose index the global then holds.\<close>

definition create :: "'a \<Rightarrow> 'a store \<Rightarrow> nat \<times> 'a store" where
  "create v xs = (length xs, xs @ [(v, True)])"

subsection \<open>The display state\<close>

text \<open>The page's elements the display writes: the four counters (\<open>None\<close> before the first
  \<open>updateStats\<close>), the two chart globals and their instances, the rows of \<open>tableBody\<close>, and
  the DataTables global and its instances, each with the rows it took from the table body.
  \<open>date_parse\<close> is the engine's date parser.\<close>

record display =
  date_parse :: "string \<Rightarrow> int option"
  counters :: "(nat \<times> nat \<times> nat \<times> nat) option"
  statusChart :: "nat option"
  statusCharts :: "chart_cfg store"
  typeChart :: "nat option"
  typeCharts :: "chart_cfg store"
  tableBody :: "string list"
  dataTable :: "nat option"
  dataTables :: "(dt_cfg \<times> string list) store"

definition init_display :: "(string \<Rightarrow> int option) \<Rightarrow> display" where
  "init_display parse =
     \<lparr>date_parse = parse, counters = None, statusChart = None, statusCharts = [], typeChart = None,
      typeCharts = [], tableBody = [], dataTable = None, dataTables = []\<rparr>"

definition update_counters :: "mrec list \<Rightarrow> display \<Rightarrow> display" where
  "update_counters fd d = d\<lparr>counters := Some (update_stats fd)\<rparr>"

definition update_status_chart :: "mrec list \<Rightarrow> display \<Rightarrow> display" where
  "update_status_chart fd d =
     (let (i, cs) = create (status_cfg fd) (destroy (statusChart d) (statusCharts d))
      in d\<lparr>statusCharts := cs, statusChart := Some i\<rparr>)"

definition update_type_chart :: "mrec list \<Rightarrow> display \<Rightarrow> display" where
  "update_type_chart fd d =
     (let (i, cs) = create (type_cfg fd) (destroy (typeChart d) (typeCharts d))
      in d\<lparr>typeCharts := cs, typeChart := Some i\<rparr>)"

text \<open>\<open>if (dataTable) dataTable.destroy()\<close> (lines 453 to 455). DataTables' \<open>destroy()\<close>
  detaches the children of the table's body and appends back the rows the instance holds,
  in their original order; \<open>tableBody\<close> is the body of the table \<open>#dataTable\<close> (the page's
  markup, which is not under \<open>src/\<close>, places it there).\<close>

definition dt_destroy :: "display \<Rightarrow> display" where
  "dt_destroy d =
     (case dataTable d of
        None \<Rightarrow> d
      | Some i \<Rightarrow> d\<lparr>tableBody := snd (fst (dataTables d ! i)), dataTables := destroy (Some i) (dataTables d)\<rparr>)"

text \<open>\<open>updateTable\<close>: the body is emptied and filled with the sorted rows, then the old
  grid is destroyed and a new one is created on the rows the body then holds.\<close>

definition update_table :: "mrec list \<Rightarrow> display \<Rightarrow> display" where
  "update_table fd d =
     (let d1 = dt_destroy (d\<lparr>tableBody := table_rows (date_parse d) fd\<rparr>);
          (i, ts) = create (table_cfg, tableBody d1) (dataTables d1)
      in d1\<lparr>dataTables := ts, dataTable := Some i\<rparr>)"

text \<open>\<open>updateCharts\<close>: the status chart, then the type chart.\<close>

definition update_charts :: "mrec list \<Rightarrow> display \<Rightarrow> display" where
  "update_charts fd d = update_type_chart fd (update_status_chart fd d)"

text \<open>\<open>updateDisplay\<close>: \<open>updateStats\<close>, \<open>updateCharts\<close>, \<open>updateTable\<close>.\<close>

definition update_display :: "mrec list \<Rightarrow> display \<Rightarrow> display" where
  "update_display fd d = update_table fd (update_charts fd (update_counters fd d))"

subsection \<open>Invariants and specifications\<close>

text \<open>\<open>sole p xs\<close>: the global \<open>p\<close> refers to the only live instance, or there is none.\<close>

definition sole :: "nat option \<Rightarrow> 'a store \<Rightarrow> bool" where
  "sole p xs =
     (case p of None \<Rightarrow> (\<forall>j < length xs. \<not> snd (xs ! j))
      | Some i \<Rightarrow> i < length xs \<and> (\<forall>j < length xs. snd (xs ! j) = (j = i)))"

definition display_inv :: "display \<Rightarrow> bool" where
  "display_inv d =
     (sole (statusChart d) (statusCharts d) \<and> sole (typeChart d) (typeCharts d) \<and>
      sole (dataTable d) (dataTables d))"

text \<open>\<open>drawn d fd\<close>: the counters and the one live chart of each canvas show \<open>fd\<close>, and
  one grid is live.\<close>

definition drawn :: "display \<Rightarrow> mrec list \<Rightarrow> bool" where
  "drawn d fd =
     (counters d = Some (update_stats fd) \<and>
      filter snd (statusCharts d) = [(status_cfg fd, True)] \<and>
      filter snd (typeCharts d) = [(type_cfg fd, True)] \<and>
      length (filter snd (dataTables d)) = 1)"

text \<open>\<open>grid_rows d rs\<close>: a grid exists, the one live grid holds the rows \<open>rs\<close>, and the
  table body holds them.\<close>

definition grid_rows :: "display \<Rightarrow> string list \<Rightarrow> bool" where
  "grid_rows d rs =
     (dataTable d \<noteq> None \<and> tableBody d = rs \<and> filter snd (dataTables d) = [((table_cfg, rs), True)])"

text \<open>The specification's count mappings (\<open>countByStatus\<close>, \<open>countByFacilityType\<close>) and the
  chart label of each status.\<close>

definition count_by_status :: "mrec list \<Rightarrow> statut \<Rightarrow> nat" where
  "count_by_status ms st = length (filter (\<lambda>m. statut m = st) ms)"

definition count_by_type :: "mrec list \<Rightarrow> etype \<Rightarrow> nat" where
  "count_by_type ms t = length (filter (\<lambda>m. etype m = t) ms)"

fun status_label :: "statut \<Rightarrow> string" where
  "status_label Rec = ''Re'' @ [c_cedil] @ ''us''"
| "status_label Re = ''R'' @ [e_acute] @ ''par'' @ [e_acute] @ ''s''"
| "status_label Nr = ''Non r'' @ [e_acute] @ ''par'' @ [e_acute] @ ''s''"

subsection \<open>Sample inputs\<close>

text \<open>A date parser for the concrete runs: it accepts the date-only ISO form
  \<open>YYYY-MM-DD\<close> (read as UTC midnight, as ECMAScript prescribes) and nothing else.\<close>

fun sample_digits :: "nat \<Rightarrow> string \<Rightarrow> nat option" where
  "sample_digits n [] = Some n"
| "sample_digits n (c # cs) =
     (let k = (of_char c :: nat) in if 48 \<le> k \<and> k \<le> 57 then sample_digits (10 * n + (k - 48)) cs else None)"

definition days_from_civil :: "int \<Rightarrow> int \<Rightarrow> int \<Rightarrow> int" where
  "days_from_civil y m d =
     (let y' = (if m \<le> 2 then y - 1 else y); era = y' div 400; yoe = y' - era * 400;
          doy = (153 * (if m > 2 then m - 3 else m + 9) + 2) div 5 + d - 1;
          doe = yoe * 365 + yoe div 4 - yoe div 100 + doy
      in era * 146097 + doe - 719468)"

definition sample_date_parse :: "string \<Rightarrow> int option" where
  "sample_date_parse s =
     (if length s = 10 \<and> s ! 4 = CHR ''-'' \<and> s ! 7 = CHR ''-'' then
        (case (sample_digits 0 (take 4 s), sample_digits 0 (take 2 (drop 5 s)), sample_digits 0 (drop 8 s)) of
           (Some y, Some m, Some d) \<Rightarrow>
             if 1 \<le> m \<and> m \<le> 12 \<and> 1 \<le> d \<and> d \<le> 31
             then Some (days_from_civil (int y) (int m) (int d) * 86400000) else None
         | _ \<Rightarrow> None)
      else None)"

definition dated_rec :: "string \<Rightarrow> cell \<Rightarrow> mrec" where
  "dated_rec e dt = (record_of [(''Equipement'', CStr e)])\<lparr>date := dt\<rparr>"

subsection \<open>Lemmas on the sort\<close>

lemma js_sort_Nil [simp]: "js_sort c [] = []"
  by (simp add: js_sort_def)

lemma js_sort_Cons [simp]: "js_sort c (x # xs) = insort_cmp c x (js_sort c xs)"
  by (simp add: js_sort_def)

lemma mset_insort_cmp [simp]: "mset (insort_cmp c x xs) = add_mset x (mset xs)"
  by (induction xs) auto

lemma mset_js_sort [simp]: "mset (js_sort c xs) = mset xs"
  by (induction xs) simp_all

lemma set_js_sort [simp]: "set (js_sort c xs) = set xs"
  by (metis mset_js_sort set_mset_mset)

lemma insort_cmp_key:
  "\<forall>y \<in> set ys. (c x y \<le> 0) = (f x \<le> f y) \<Longrightarrow> insort_cmp c x ys = insort_key f x ys"
  by (induction ys) auto

text \<open>A comparator that orders as a key does is sorted by that key, stably.\<close>

lemma js_sort_key:
  "\<forall>x \<in> set xs. \<forall>y \<in> set xs. (c x y \<le> 0) = (f x \<le> f y) \<Longrightarrow> js_sort c xs = sort_key f xs"
proof (induction xs)
  case (Cons x xs)
  then have "js_sort c xs = sort_key f xs" by simp
  moreover have "\<forall>y \<in> set (sort_key f xs). (c x y \<le> 0) = (f x \<le> f y)" using Cons.prems by simp
  ultimately show ?case by (simp add: insort_cmp_key)
qed simp

lemma date_cmp_dated:
  "dated parse a \<Longrightarrow> dated parse b \<Longrightarrow>
   (sort_compare (date_cmp parse) a b \<le> 0) = (date_key parse a \<le> date_key parse b)"
  by (auto simp: dated_def date_key_def date_cmp_def sort_compare_def)

subsection \<open>Lemmas on the instance stores\<close>

lemma destroy_sole: "sole p xs \<Longrightarrow> \<forall>j < length (destroy p xs). \<not> snd (destroy p xs ! j)"
proof (cases p)
  case None
  then show "sole p xs \<Longrightarrow> ?thesis" by (simp add: sole_def destroy_def)
next
  case (Some i)
  then show "sole p xs \<Longrightarrow> ?thesis" by (simp add: sole_def destroy_def nth_list_update)
qed

lemma length_destroy [simp]: "length (destroy p xs) = length xs"
  by (simp add: destroy_def split: option.splits)

lemma destroy_all_dead: "sole p xs \<Longrightarrow> filter snd (destroy p xs) = []"
proof -
  assume "sole p xs"
  then have "\<forall>j < length (destroy p xs). \<not> snd (destroy p xs ! j)" by (rule destroy_sole)
  then show ?thesis by (metis filter_empty_conv in_set_conv_nth)
qed

lemma recreate_sole: "sole p xs \<Longrightarrow> sole (Some (length xs)) (destroy p xs @ [(v, True)])"
  using destroy_sole [of p xs] by (auto simp: sole_def nth_append)

lemma update_display_fields [simp]:
  "counters (update_display fd d) = Some (update_stats fd)"
  "date_parse (update_display fd d) = date_parse d"
  "statusChart (update_display fd d) = Some (length (statusCharts d))"
  "statusCharts (update_display fd d) = destroy (statusChart d) (statusCharts d) @ [(status_cfg fd, True)]"
  "typeChart (update_display fd d) = Some (length (typeCharts d))"
  "typeCharts (update_display fd d) = destroy (typeChart d) (typeCharts d) @ [(type_cfg fd, True)]"
  "dataTable (update_display fd d) = Some (length (dataTables d))"
  by (simp_all add: update_display_def update_charts_def update_table_def update_type_chart_def
        update_status_chart_def update_counters_def dt_destroy_def create_def Let_def
        split: option.splits)

lemma update_display_grid:
  "tableBody (update_display fd d) =
     (case dataTable d of None \<Rightarrow> table_rows (date_parse d) fd | Some i \<Rightarrow> snd (fst (dataTables d ! i)))"
  "dataTables (update_display fd d) =
     destroy (dataTable d) (dataTables d) @ [((table_cfg, tableBody (update_display fd d)), True)]"
  by (simp_all add: update_display_def update_charts_def update_table_def update_type_chart_def
        update_status_chart_def update_counters_def dt_destroy_def create_def Let_def destroy_def
        split: option.splits)

lemma sole_filter: "sole (Some i) xs \<Longrightarrow> filter snd xs = [xs ! i]"
proof (induction xs arbitrary: i)
  case (Cons x xs)
  show ?case
  proof (cases i)
    case 0
    with Cons.prems have "\<forall>j < length xs. \<not> snd (xs ! j)" and "snd x"
      by (auto simp: sole_def)
    then have "filter snd xs = []" by (metis filter_empty_conv in_set_conv_nth)
    with 0 \<open>snd x\<close> show ?thesis by simp
  next
    case (Suc k)
    with Cons.prems have "sole (Some k) xs" and "\<not> snd x"
      by (auto simp: sole_def)
    with Suc Cons.IH show ?thesis by simp
  qed
qed (simp add: sole_def)

lemma update_display_inv: "display_inv d \<Longrightarrow> display_inv (update_display fd d)"
  by (simp add: display_inv_def recreate_sole update_display_grid(2))

lemma update_display_drawn: "display_inv d \<Longrightarrow> drawn (update_display fd d) fd"
  by (simp add: drawn_def display_inv_def destroy_all_dead update_display_grid(2))

lemma update_display_first_grid:
  "display_inv d \<Longrightarrow> dataTable d = None \<Longrightarrow>
   grid_rows (update_display fd d) (table_rows (date_parse d) fd)"
  by (simp add: grid_rows_def display_inv_def destroy_all_dead update_display_grid)

lemma update_display_keeps_grid:
  "display_inv d \<Longrightarrow> grid_rows d rs \<Longrightarrow> grid_rows (update_display fd d) rs"
proof -
  assume inv: "display_inv d" and g: "grid_rows d rs"
  then obtain i where i: "dataTable d = Some i" and "filter snd (dataTables d) = [((table_cfg, rs), True)]"
    by (auto simp: grid_rows_def)
  moreover have "filter snd (dataTables d) = [dataTables d ! i]"
    using inv i by (simp add: display_inv_def sole_filter)
  ultimately have "dataTables d ! i = ((table_cfg, rs), True)" by simp
  with inv i show ?thesis
    by (simp add: grid_rows_def display_inv_def destroy_all_dead update_display_grid)
qed

lemma fold_keeps_grid:
  "display_inv d \<Longrightarrow> grid_rows d rs \<Longrightarrow> grid_rows (fold update_display fds d) rs"
  by (induction fds arbitrary: d) (simp_all add: update_display_inv update_display_keeps_grid)

lemma init_display_inv: "display_inv (init_display parse)"
  by (simp add: display_inv_def init_display_def sole_def)

lemma date_parse_init [simp]: "date_parse (init_display parse) = parse"
  by (simp add: init_display_def)

lemma fold_display_inv: "display_inv d \<Longrightarrow> display_inv (fold update_display fds d)"
  by (induction fds arbitrary: d) (simp_all add: update_display_inv)

lemma date_parse_fold [simp]: "date_parse (fold update_display fds d) = date_parse d"
  by (induction fds arbitrary: d) simp_all


subsection \<open>Properties\<close>

text \<open>Claim C8 (charts follow the data, the grid does not): after any non-empty sequence of
  redraws from the initial page, the counters and the one live Chart.js instance of each canvas
  show the last data drawn, while the one live DataTables instance and the table body hold the
  rows of the first redraw: each \<open>destroy()\<close> puts back the rows of the grid it destroys,
  after \<open>updateTable\<close> has written the new ones.\<close>

theorem redraw_single_instances:
  "fds \<noteq> [] \<Longrightarrow>
   filter snd (statusCharts (fold update_display fds (init_display parse))) = [(status_cfg (last fds), True)] \<and>
   filter snd (typeCharts (fold update_display fds (init_display parse))) = [(type_cfg (last fds), True)] \<and>
   counters (fold update_display fds (init_display parse)) = Some (update_stats (last fds)) \<and>
   filter snd (dataTables (fold update_display fds (init_display parse)))
     = [((table_cfg, table_rows parse (hd fds)), True)] \<and>
   tableBody (fold update_display fds (init_display parse)) = table_rows parse (hd fds)"
proof -
  assume ne: "fds \<noteq> []"
  then obtain fd fds' where fds: "fds = fds' @ [fd]" by (cases fds rule: rev_cases) auto
  have "display_inv (fold update_display fds' (init_display parse))"
    by (rule fold_display_inv [OF init_display_inv])
  then have "drawn (update_display fd (fold update_display fds' (init_display parse))) fd"
    by (rule update_display_drawn)
  then have charts: "drawn (fold update_display fds (init_display parse)) (last fds)"
    by (simp add: fds)
  from ne obtain f1 rest where f1: "fds = f1 # rest" by (cases fds) auto
  have "grid_rows (update_display f1 (init_display parse)) (table_rows parse f1)"
    using update_display_first_grid [OF init_display_inv] by (simp add: init_display_def)
  then have "grid_rows (fold update_display rest (update_display f1 (init_display parse))) (table_rows parse f1)"
    using fold_keeps_grid update_display_inv [OF init_display_inv] by blast
  then have "grid_rows (fold update_display fds (init_display parse)) (table_rows parse (hd fds))"
    by (simp add: f1)
  with charts show ?thesis by (simp add: drawn_def grid_rows_def)
qed

theorem redraw_single_instances_witness:
  "[[dated_rec ''PC-01'' (CStr [])], [dated_rec ''PC-01'' (CStr []), dated_rec ''PC-02'' (CStr [])]] \<noteq> [] \<and>
   filter snd (statusCharts (fold update_display [[dated_rec ''PC-01'' (CStr [])],
     [dated_rec ''PC-01'' (CStr []), dated_rec ''PC-02'' (CStr [])]] (init_display sample_date_parse)))
     = [(status_cfg [dated_rec ''PC-01'' (CStr []), dated_rec ''PC-02'' (CStr [])], True)] \<and>
   tableBody (fold update_display [[dated_rec ''PC-01'' (CStr [])],
     [dated_rec ''PC-01'' (CStr []), dated_rec ''PC-02'' (CStr [])]] (init_display sample_date_parse))
     = [row_html (dated_rec ''PC-01'' (CStr []))]"
proof -
  have n: "[[dated_rec ''PC-01'' (CStr [])], [dated_rec ''PC-01'' (CStr []), dated_rec ''PC-02'' (CStr [])]] \<noteq> []"
    by simp
  have t: "table_rows sample_date_parse [dated_rec ''PC-01'' (CStr [])] = [row_html (dated_rec ''PC-01'' (CStr []))]"
    by (simp add: table_rows_def sort_compare_def)
  show ?thesis using n t redraw_single_instances [OF n, of sample_date_parse] by simp
qed

text \<open>Claim C25 (date order): when every record of the view has a valid date, the table rows
  are the records sorted by date, latest first, records with the same date in view order:
  the library's stable sort \<open>sort_key\<close> by the negated time value.\<close>

theorem table_rows_by_date:
  "\<forall>m \<in> set fd. dated parse m \<Longrightarrow> table_rows parse fd = map row_html (sort_key (date_key parse) fd)"
proof -
  assume "\<forall>m \<in> set fd. dated parse m"
  then have "js_sort (sort_compare (date_cmp parse)) fd = sort_key (date_key parse) fd"
    by (intro js_sort_key) (simp add: date_cmp_dated)
  then show ?thesis by (simp add: table_rows_def)
qed

theorem table_rows_by_date_witness:
  "dated sample_date_parse (dated_rec ''PC-01'' (CStr ''2023-11-02'')) \<and>
   dated sample_date_parse (dated_rec ''PC-02'' (CStr ''2024-03-15'')) \<and>
   table_rows sample_date_parse [dated_rec ''PC-01'' (CStr ''2023-11-02''), dated_rec ''PC-02'' (CStr ''2024-03-15'')] =
   map row_html [dated_rec ''PC-02'' (CStr ''2024-03-15''), dated_rec ''PC-01'' (CStr ''2023-11-02'')]"
proof -
  have h: "\<forall>m \<in> set [dated_rec ''PC-01'' (CStr ''2023-11-02''), dated_rec ''PC-02'' (CStr ''2024-03-15'')].
             dated sample_date_parse m" by code_simp
  have k: "sort_key (date_key sample_date_parse) [dated_rec ''PC-01'' (CStr ''2023-11-02''), dated_rec ''PC-02'' (CStr ''2024-03-15'')]
           = [dated_rec ''PC-02'' (CStr ''2024-03-15''), dated_rec ''PC-01'' (CStr ''2023-11-02'')]" by code_simp
  show ?thesis using h k table_rows_by_date [OF h] by simp
qed

text \<open>Claim C26 (inconsistent comparator): a record whose date string the engine cannot parse
  compares equal to every dated record, although two dated records with different dates
  compare unequal; the comparator is not consistent, and ECMAScript then leaves the order of
  the sort to the engine.\<close>

theorem date_cmp_not_consistent:
  "dated parse a \<Longrightarrow> dated parse b \<Longrightarrow> date_key parse a \<noteq> date_key parse b \<Longrightarrow>
   truthy (date n) \<Longrightarrow> date_time parse (date n) = None \<Longrightarrow>
   sort_compare (date_cmp parse) a n = 0 \<and> sort_compare (date_cmp parse) n b = 0 \<and>
   sort_compare (date_cmp parse) a b \<noteq> 0"
  by (auto simp: dated_def date_key_def date_cmp_def sort_compare_def split: option.splits)

theorem date_cmp_not_consistent_witness:
  "sort_compare (date_cmp sample_date_parse) (dated_rec ''PC-02'' (CStr ''2024-03-15'')) (dated_rec ''PC-03'' (CStr ''15/03/2024'')) = 0 \<and>
   sort_compare (date_cmp sample_date_parse) (dated_rec ''PC-03'' (CStr ''15/03/2024'')) (dated_rec ''PC-01'' (CStr ''2023-11-02'')) = 0 \<and>
   sort_compare (date_cmp sample_date_parse) (dated_rec ''PC-02'' (CStr ''2024-03-15'')) (dated_rec ''PC-01'' (CStr ''2023-11-02'')) \<noteq> 0"
proof -
  have a: "dated sample_date_parse (dated_rec ''PC-02'' (CStr ''2024-03-15''))" by code_simp
  have b: "dated sample_date_parse (dated_rec ''PC-01'' (CStr ''2023-11-02''))" by code_simp
  have ab: "date_key sample_date_parse (dated_rec ''PC-02'' (CStr ''2024-03-15'')) \<noteq>
            date_key sample_date_parse (dated_rec ''PC-01'' (CStr ''2023-11-02''))" by code_simp
  have n1: "truthy (date (dated_rec ''PC-03'' (CStr ''15/03/2024'')))" by code_simp
  have n2: "date_time sample_date_parse (date (dated_rec ''PC-03'' (CStr ''15/03/2024''))) = None" by code_simp
  show ?thesis using date_cmp_not_consistent [OF a b ab n1 n2] by simp
qed

text \<open>Claim C24 (charts refine the count mappings): looking up the label of a status, or of a
  facility type, in a chart's labels gives the number of records of the view with that status,
  or that type, as the specification's \<open>countByStatus\<close> and \<open>countByFacilityType\<close> do.\<close>

theorem charts_refine_counts:
  "map_of (zip (chart_labels (status_cfg fd)) (chart_data (status_cfg fd))) (status_label st)
     = Some (count_by_status fd st) \<and>
   map_of (zip (chart_labels (type_cfg fd)) (chart_data (type_cfg fd))) (etype_label t)
     = Some (count_by_type fd t)"
  by (cases st; cases t)
     (simp_all add: status_cfg_def type_cfg_def status_counts_def type_counts_def count_by_status_def
        count_by_type_def count_simps type_count_simps)

end
