(* ===== verification/App.thy ===== *)
theory App
  imports Export Display
begin

text \<open>
  The page controller of \<open>app.js\<close>: the global variables \<open>currentData\<close>,
  \<open>filteredData\<close> and \<open>currentWorkbook\<close> (lines 2 to 4), the values of the page's
  \<open><select>\<close> elements, and the event handlers registered in
  \<open>initializeEventListeners\<close> (lines 16 to 37), \<open>loadDefaultFile\<close> (40 to 56),
  \<open>handleFileUpload\<close> (59 to 67), \<open>readExcelFile\<close> (70 to 97), \<open>loadSheetData\<close>
  (100 to 121), \<open>applyFilters\<close> (199 to 235), \<open>resetFilters\<close> (238 to 245) and
  \<open>exportToCSV\<close> (480 to 515). The page is one state record and one event function;
  a \<open>FileReader\<close> runs asynchronously, so a started read is kept in \<open>pending\<close> and
  its \<open>onload\<close> runs at a later event \<open>ReadFinished i\<close>, in any order. The spreadsheet
  parser is external: a read yields the parsed workbook (sheet name to the rows
  \<open>sheet_to_json\<close> gives) or the message of the parser's exception. The rendering done by
  \<open>updateDisplay\<close> is the display state of theory \<open>Display\<close> (\<open>dom\<close>); \<open>shown\<close>
  records the list it was last called on.
\<close>

type_synonym workbook = "(string \<times> row list) list"

datatype parsed = Unparseable string | Parsed workbook

datatype read_result = ReadError | ReadOk parsed

datatype filter_id = WilayaSel | TypeSel | TechnicienSel | StatutSel

datatype event =
    FileChosen "(string \<times> read_result) option"
  | DefaultFile "read_result option"
  | ReadFinished nat
  | SheetChosen string
  | FilterChosen filter_id string
  | ResetClicked
  | ExportClicked string

record app =
  currentData :: "mrec list"
  filteredData :: "mrec list"
  currentWorkbook :: "workbook option"
  sel :: selection
  sheetSelect :: string
  fileName :: string
  titleSheet :: string
  shown :: "mrec list"
  dom :: display
  pending :: "(nat \<times> read_result) list"
  next_read :: nat
  alerts :: "string list"
  downloads :: "(string \<times> string) list"

definition init_app :: "selection \<Rightarrow> string \<Rightarrow> (string \<Rightarrow> int option) \<Rightarrow> app" where
  "init_app sel0 sheet0 parse =
     \<lparr>currentData = [], filteredData = [], currentWorkbook = None, sel = sel0,
      sheetSelect = sheet0, fileName = [], titleSheet = [], shown = [], dom = init_display parse,
      pending = [], next_read = 0, alerts = [], downloads = []\<rparr>"

definition alert :: "string \<Rightarrow> app \<Rightarrow> app" where
  "alert msg s = s\<lparr>alerts := alerts s @ [msg]\<rparr>"

definition sheet_missing_msg :: "string \<Rightarrow> string" where
  "sheet_missing_msg name = ''Feuille non trouv'' @ [e_acute] @ ''e: '' @ name"

definition excel_error_msg :: "string \<Rightarrow> string" where
  "excel_error_msg m = ''Erreur lors de la lecture du fichier Excel: '' @ m"

definition read_error_msg :: string where
  "read_error_msg = ''Erreur lors de la lecture du fichier''"

subsection \<open>Operations\<close>

text \<open>\<open>applyFilters\<close>: returns early when \<open>currentData\<close> is empty, else filters and
  calls \<open>updateDisplay\<close>.\<close>

definition apply_filters :: "app \<Rightarrow> app" where
  "apply_filters s =
     (if currentData s = [] then s
      else let fd = filter_data (sel s) (currentData s) in s\<lparr>filteredData := fd, shown := fd, dom := update_display fd (dom s)\<rparr>)"

text \<open>\<open>loadSheetData\<close>: the state afterwards and the exception it throws, if any.\<close>

definition load_sheet_data :: "string \<Rightarrow> app \<Rightarrow> app \<times> js_error option" where
  "load_sheet_data name s =
     (case currentWorkbook s of
        None \<Rightarrow> (alert (sheet_missing_msg name) s, None)
      | Some wb \<Rightarrow>
          (case map_of wb name of
             None \<Rightarrow> (alert (sheet_missing_msg name) s, None)
           | Some rows \<Rightarrow>
               (case normalizeData rows of
                  Inl err \<Rightarrow> (s, Some err)
                | Inr ms \<Rightarrow> ((apply_filters (s\<lparr>currentData := ms\<rparr>))\<lparr>titleSheet := name\<rparr>, None))))"

text \<open>The \<open>reader.onload\<close> body: \<open>XLSX.read\<close> inside \<open>try\<close>; the catch alerts.\<close>

definition on_load :: "parsed \<Rightarrow> app \<Rightarrow> app" where
  "on_load p s =
     (case p of
        Unparseable msg \<Rightarrow> alert (excel_error_msg msg) s
      | Parsed wb \<Rightarrow>
          (let s1 = s\<lparr>currentWorkbook := Some wb\<rparr>;
               (s2, exc) = load_sheet_data (sheetSelect s1) s1
           in case exc of None \<Rightarrow> s2 | Some (TypeError m) \<Rightarrow> alert (excel_error_msg m) s2))"

definition start_read :: "read_result \<Rightarrow> app \<Rightarrow> app" where
  "start_read r s = s\<lparr>pending := pending s @ [(next_read s, r)], next_read := Suc (next_read s)\<rparr>"

definition finish_read :: "nat \<Rightarrow> app \<Rightarrow> app" where
  "finish_read i s =
     (case map_of (pending s) i of
        None \<Rightarrow> s
      | Some r \<Rightarrow>
          (let s' = s\<lparr>pending := filter (\<lambda>p. fst p \<noteq> i) (pending s)\<rparr> in
           case r of ReadError \<Rightarrow> alert read_error_msg s' | ReadOk p \<Rightarrow> on_load p s'))"

fun set_filter :: "filter_id \<Rightarrow> string \<Rightarrow> selection \<Rightarrow> selection" where
  "set_filter WilayaSel v f = f\<lparr>wilayaF := v\<rparr>"
| "set_filter TypeSel v f = f\<lparr>typeF := v\<rparr>"
| "set_filter TechnicienSel v f = f\<lparr>technicienF := v\<rparr>"
| "set_filter StatutSel v f = f\<lparr>statutF := v\<rparr>"

definition reset_selection :: selection where
  "reset_selection = \<lparr>wilayaF = ''El Bayadh'', typeF = ''all'', technicienF = ''all'', statutF = ''all''\<rparr>"

definition export_event :: "string \<Rightarrow> app \<Rightarrow> app" where
  "export_event isodate s =
     (case export_csv (filteredData s) (sheetSelect s) isodate of
        Inl msg \<Rightarrow> alert msg s
      | Inr file \<Rightarrow> s\<lparr>downloads := downloads s @ [file]\<rparr>)"

fun app_step :: "app \<Rightarrow> event \<Rightarrow> app" where
  "app_step s (FileChosen None) = s"
| "app_step s (FileChosen (Some (name, r))) = start_read r (s\<lparr>fileName := name\<rparr>)"
| "app_step s (DefaultFile None) = s"
| "app_step s (DefaultFile (Some r)) = start_read r s"
| "app_step s (ReadFinished i) = finish_read i s"
| "app_step s (SheetChosen name) =
     (let s' = s\<lparr>sheetSelect := name\<rparr> in
      if currentWorkbook s' \<noteq> None then fst (load_sheet_data name s') else s')"
| "app_step s (FilterChosen f v) = apply_filters (s\<lparr>sel := set_filter f v (sel s)\<rparr>)"
| "app_step s ResetClicked = apply_filters (s\<lparr>sel := reset_selection\<rparr>)"
| "app_step s (ExportClicked d) = export_event d s"

fun app_run :: "app \<Rightarrow> event list \<Rightarrow> app" where
  "app_run s [] = s"
| "app_run s (e # es) = app_run (app_step s e) es"

inductive reachable :: "app \<Rightarrow> app \<Rightarrow> bool" where
  start: "reachable s0 s0"
| step: "reachable s0 s \<Longrightarrow> reachable s0 (app_step s e)"

subsection \<open>The view invariant\<close>

text \<open>Whenever there is data, the view is the current data filtered by the current
  selection, and the rendered rows are the view.\<close>

definition view_ok :: "app \<Rightarrow> bool" where
  "view_ok s =
     ((currentData s \<noteq> [] \<longrightarrow> filteredData s = filter_data (sel s) (currentData s))
      \<and> shown s = filteredData s)"

text \<open>The part of the page an invariant of the view may read: the globals, the selection,
  the rendered list and the display.\<close>

definition core :: "app \<Rightarrow> mrec list \<times> mrec list \<times> selection \<times> mrec list \<times> display" where
  "core s = (currentData s, filteredData s, sel s, shown s, dom s)"

definition sample_sel :: selection where
  "sample_sel = reset_selection"

definition sample_book :: workbook where
  "sample_book =
     [(''Feuil1'', [[(''Equipement'', CStr ''PC-01''), (''Marque'', CStr ''Dell'')]]),
      (''Vide'', [[(''Equipement'', CStr ''  ''), (''Marque'', CStr ''HP'')]])]"

definition other_book :: workbook where
  "other_book = [(''Feuil1'', [[(''Equipement'', CStr ''Imprimante'')]])]"

definition loaded_app :: app where
  "loaded_app = app_run (init_app sample_sel ''Feuil1'' sample_date_parse) [DefaultFile (Some (ReadOk (Parsed sample_book))), ReadFinished 0]"

definition two_loads :: app where
  "two_loads = app_run (init_app sample_sel ''Feuil1'' sample_date_parse)
     [FileChosen (Some (''ancien.xlsx'', ReadOk (Parsed sample_book))),
      FileChosen (Some (''nouveau.xlsx'', ReadOk (Parsed other_book))),
      ReadFinished 1]"

definition numeric_book :: workbook where
  "numeric_book = [(''Feuil1'', [[(''Equipement'', CNum 4021)]])]"

lemma view_ok_init: "view_ok (init_app sel0 sheet0 parse)"
  by (simp add: view_ok_def init_app_def)

lemma apply_filters_view_ok:
  "shown s = filteredData s \<Longrightarrow> view_ok (apply_filters s)"
  by (simp add: apply_filters_def view_ok_def Let_def)

lemma alert_fields [simp]:
  "currentData (alert m s) = currentData s" "filteredData (alert m s) = filteredData s"
  "currentWorkbook (alert m s) = currentWorkbook s" "sel (alert m s) = sel s"
  "shown (alert m s) = shown s" "dom (alert m s) = dom s" "sheetSelect (alert m s) = sheetSelect s"
  "downloads (alert m s) = downloads s" "pending (alert m s) = pending s"
  by (simp_all add: alert_def)

lemma load_sheet_data_view_ok:
  "view_ok s \<Longrightarrow> view_ok (fst (load_sheet_data name s))"
  by (auto simp: load_sheet_data_def view_ok_def apply_filters_def Let_def
           split: option.splits sum.splits)

text \<open>An invariant of the view that holds after \<open>applyFilters\<close> under any selection and
  after \<open>loadSheetData\<close> holds after every event: the other handlers leave \<open>core\<close>
  unchanged or call these two.\<close>

lemma app_step_invariant:
  assumes I: "P s"
    and frame: "\<And>s s'. P s \<Longrightarrow> core s' = core s \<Longrightarrow> P s'"
    and filters: "\<And>s f. P s \<Longrightarrow> P (apply_filters (s\<lparr>sel := f\<rparr>))"
    and load: "\<And>s name. P s \<Longrightarrow> P (fst (load_sheet_data name s))"
  shows "P (app_step s e)"
proof -
  have alert: "P (alert m s)" if "P s" for m s
    using frame [OF that] by (simp add: core_def)
  have on_load: "P (on_load p s)" if "P s" for p s
  proof (cases p)
    case (Parsed wb)
    let ?s1 = "s\<lparr>currentWorkbook := Some wb\<rparr>"
    have "P ?s1" using frame [OF that] by (simp add: core_def)
    then have "P (fst (load_sheet_data (sheetSelect ?s1) ?s1))" by (rule load)
    with Parsed show ?thesis
      by (auto simp: on_load_def alert split: prod.splits option.splits js_error.splits)
  qed (simp add: on_load_def alert that)
  have read: "P (start_read r s)" if "P s" for r s
    using frame [OF that] by (simp add: core_def start_read_def)
  show ?thesis
  proof (cases e)
    case (FileChosen x)
    have "P (s\<lparr>fileName := n\<rparr>)" for n using frame [OF I] by (simp add: core_def)
    with FileChosen I show ?thesis by (cases x) (auto intro!: read)
  next
    case (DefaultFile x)
    with I show ?thesis by (cases x) (auto intro: read)
  next
    case (ReadFinished i)
    have "P (s\<lparr>pending := q\<rparr>)" for q using frame [OF I] by (simp add: core_def)
    with ReadFinished I show ?thesis
      by (auto simp: finish_read_def Let_def intro: alert on_load split: option.splits read_result.splits)
  next
    case (SheetChosen name)
    have "P (s\<lparr>sheetSelect := name\<rparr>)" using frame [OF I] by (simp add: core_def)
    with SheetChosen show ?thesis by (auto simp: Let_def intro: load)
  next
    case (FilterChosen f v)
    with I show ?thesis by (simp add: filters)
  next
    case ResetClicked
    with I show ?thesis by (simp add: filters)
  next
    case (ExportClicked d)
    have "P (s\<lparr>downloads := ds\<rparr>)" for ds using frame [OF I] by (simp add: core_def)
    with ExportClicked I show ?thesis by (auto simp: export_event_def intro: alert split: sum.splits)
  qed
qed

lemma app_step_view_ok: "view_ok s \<Longrightarrow> view_ok (app_step s e)"
proof (erule app_step_invariant)
  show "view_ok s'" if "view_ok s" "core s' = core s" for s s'
    using that by (simp add: view_ok_def core_def)
  show "view_ok (apply_filters (s\<lparr>sel := f\<rparr>))" if "view_ok s" for s f
    using that by (intro apply_filters_view_ok) (simp add: view_ok_def)
qed (rule load_sheet_data_view_ok)

lemma reachable_view_ok: "reachable s0 s \<Longrightarrow> view_ok s0 \<Longrightarrow> view_ok s"
  by (induction rule: reachable.induct) (auto intro: app_step_view_ok)

lemma reachable_app_run: "reachable s0 (app_run s0 es)"
proof -
  have "reachable s0 s \<Longrightarrow> reachable s0 (app_run s es)" for s
    by (induction es arbitrary: s) (auto intro: reachable.step)
  then show ?thesis by (blast intro: reachable.start)
qed

subsection \<open>Properties\<close>

lemma finish_read_ok:
  "map_of (pending s) i = Some (ReadOk p) \<Longrightarrow>
   finish_read i s = on_load p (s\<lparr>pending := filter (\<lambda>q. fst q \<noteq> i) (pending s)\<rparr>)"
  by (simp add: finish_read_def)

lemma load_sheet_data_rows:
  "currentWorkbook s = Some wb \<Longrightarrow> map_of wb name = Some rows \<Longrightarrow>
   load_sheet_data name s =
     (case normalizeData rows of Inl err \<Rightarrow> (s, Some err)
      | Inr ms \<Rightarrow> ((apply_filters (s\<lparr>currentData := ms\<rparr>))\<lparr>titleSheet := name\<rparr>, None))"
  by (simp add: load_sheet_data_def)

text \<open>Claim C5 (view invariant): in every state the page reaches from its initial state, if
  records are loaded then the filtered view is exactly the loaded records that pass the
  current filter selection, in their order, and the table, counters and charts show it.\<close>

theorem reachable_view_consistent:
  "reachable (init_app sel0 sheet0 parse) s \<Longrightarrow> currentData s \<noteq> [] \<Longrightarrow>
   filteredData s = filter_data (sel s) (currentData s) \<and> shown s = filteredData s"
  using reachable_view_ok [of "init_app sel0 sheet0 parse" s] view_ok_init [of sel0 sheet0 parse]
  by (simp add: view_ok_def)

theorem reachable_view_consistent_witness:
  "reachable (init_app sample_sel ''Feuil1'' sample_date_parse) loaded_app \<and> currentData loaded_app \<noteq> [] \<and>
   filteredData loaded_app = filter_data (sel loaded_app) (currentData loaded_app) \<and>
   shown loaded_app = filteredData loaded_app"
proof -
  have r: "reachable (init_app sample_sel ''Feuil1'' sample_date_parse) loaded_app"
    unfolding loaded_app_def by (rule reachable_app_run)
  have n: "currentData loaded_app \<noteq> []" by code_simp
  show ?thesis using r n reachable_view_consistent [OF r n] by simp
qed

text \<open>Claim C9 (stale view): selecting a sheet none of whose rows has an equipment value
  empties \<open>currentData\<close>, but \<open>applyFilters\<close> returns early on empty data, so the
  filtered view, the table and the counters keep showing the previous sheet's records.\<close>

theorem empty_sheet_keeps_view:
  "currentWorkbook s = Some wb \<Longrightarrow> map_of wb name = Some rows \<Longrightarrow> normalizeData rows = Inr [] \<Longrightarrow>
   currentData (app_step s (SheetChosen name)) = [] \<and>
   filteredData (app_step s (SheetChosen name)) = filteredData s \<and>
   shown (app_step s (SheetChosen name)) = shown s"
  by (simp add: Let_def load_sheet_data_rows apply_filters_def)

theorem empty_sheet_keeps_view_witness:
  "currentWorkbook loaded_app = Some sample_book \<and> map_of sample_book ''Vide'' = Some [[(''Equipement'', CStr ''  ''), (''Marque'', CStr ''HP'')]] \<and>
   normalizeData [[(''Equipement'', CStr ''  ''), (''Marque'', CStr ''HP'')]] = Inr [] \<and>
   filteredData loaded_app \<noteq> [] \<and>
   currentData (app_step loaded_app (SheetChosen ''Vide'')) = [] \<and>
   filteredData (app_step loaded_app (SheetChosen ''Vide'')) = filteredData loaded_app"
proof -
  have w: "currentWorkbook loaded_app = Some sample_book" by code_simp
  have m: "map_of sample_book ''Vide'' = Some [[(''Equipement'', CStr ''  ''), (''Marque'', CStr ''HP'')]]"
    by code_simp
  have e: "normalizeData [[(''Equipement'', CStr ''  ''), (''Marque'', CStr ''HP'')]] = Inr []"
    by code_simp
  have f: "filteredData loaded_app \<noteq> []" by code_simp
  show ?thesis using w m e f empty_sheet_keeps_view [OF w m e] by simp
qed

text \<open>Claim C10 (stale export): after switching to a sheet none of whose rows has an
  equipment value, the CSV export downloads the previous sheet's view under a file name that
  carries the new sheet's name.\<close>

theorem stale_export_after_empty_sheet:
  "currentWorkbook s = Some wb \<Longrightarrow> map_of wb name = Some rows \<Longrightarrow> normalizeData rows = Inr [] \<Longrightarrow>
   filteredData s \<noteq> [] \<Longrightarrow>
   downloads (app_run s [SheetChosen name, ExportClicked d]) =
     downloads s @ [(export_filename name d, csv_string (filteredData s))]"
  by (simp add: Let_def load_sheet_data_rows apply_filters_def export_event_def export_csv_def)

theorem stale_export_after_empty_sheet_witness:
  "currentWorkbook loaded_app = Some sample_book \<and>
   map_of sample_book ''Vide'' = Some [[(''Equipement'', CStr ''  ''), (''Marque'', CStr ''HP'')]] \<and>
   normalizeData [[(''Equipement'', CStr ''  ''), (''Marque'', CStr ''HP'')]] = Inr [] \<and>
   filteredData loaded_app \<noteq> [] \<and>
   downloads (app_run loaded_app [SheetChosen ''Vide'', ExportClicked ''2026-11-09T10:00:00.000Z'']) =
     [(''maintenance_Vide_2026-11-09.csv'', csv_string (filteredData loaded_app))]"
proof -
  have w: "currentWorkbook loaded_app = Some sample_book" by code_simp
  have m: "map_of sample_book ''Vide'' = Some [[(''Equipement'', CStr ''  ''), (''Marque'', CStr ''HP'')]]"
    by code_simp
  have e: "normalizeData [[(''Equipement'', CStr ''  ''), (''Marque'', CStr ''HP'')]] = Inr []"
    by code_simp
  have f: "filteredData loaded_app \<noteq> []" by code_simp
  have d: "downloads loaded_app = []" by code_simp
  have n: "export_filename ''Vide'' ''2026-11-09T10:00:00.000Z'' = ''maintenance_Vide_2026-11-09.csv''"
    by code_simp
  show ?thesis using w m e f d n stale_export_after_empty_sheet [OF w m e f] by simp
qed

text \<open>Claim C11 (last read to finish wins): when the read of a file finishes, its workbook
  replaces the current one, whatever reads were started after it; with two loads in flight
  the page ends with the workbook of the read that finished last, not the one asked for last.\<close>

theorem read_finished_installs_workbook:
  "map_of (pending s) i = Some (ReadOk (Parsed wb)) \<Longrightarrow>
   currentWorkbook (app_step s (ReadFinished i)) = Some wb"
  by (auto simp: finish_read_ok on_load_def load_sheet_data_def alert_def apply_filters_def Let_def
           split: option.splits sum.splits prod.splits js_error.splits)

theorem read_finished_installs_workbook_witness:
  "map_of (pending two_loads) 0 = Some (ReadOk (Parsed sample_book)) \<and>
   fileName two_loads = ''nouveau.xlsx'' \<and>
   currentWorkbook (app_step two_loads (ReadFinished 0)) = Some sample_book"
proof -
  have p: "map_of (pending two_loads) 0 = Some (ReadOk (Parsed sample_book))" by code_simp
  have n: "fileName two_loads = ''nouveau.xlsx''" by code_simp
  show ?thesis using p n read_finished_installs_workbook [OF p] by simp
qed

text \<open>Claim C12 (failed load leaves mixed state): when the new workbook parses but its
  selected sheet makes \<open>normalizeData\<close> throw, the page has already installed the new
  workbook, keeps the old records and view, and shows the error in an alert.\<close>

theorem load_error_mixed_state:
  "map_of (pending s) i = Some (ReadOk (Parsed wb)) \<Longrightarrow> map_of wb (sheetSelect s) = Some rows \<Longrightarrow>
   normalizeData rows = Inl (TypeError m) \<Longrightarrow>
   currentWorkbook (app_step s (ReadFinished i)) = Some wb \<and>
   currentData (app_step s (ReadFinished i)) = currentData s \<and>
   filteredData (app_step s (ReadFinished i)) = filteredData s \<and>
   alerts (app_step s (ReadFinished i)) = alerts s @ [excel_error_msg m]"
  by (simp add: finish_read_ok on_load_def load_sheet_data_def alert_def)

theorem load_error_mixed_state_witness:
  "map_of (pending (app_step loaded_app (DefaultFile (Some (ReadOk (Parsed numeric_book)))))) 1
     = Some (ReadOk (Parsed numeric_book)) \<and>
   map_of numeric_book (sheetSelect (app_step loaded_app (DefaultFile (Some (ReadOk (Parsed numeric_book))))))
     = Some [[(''Equipement'', CNum 4021)]] \<and>
   normalizeData [[(''Equipement'', CNum 4021)]] = Inl (TypeError ''equipement.trim is not a function'') \<and>
   currentWorkbook (app_run loaded_app [DefaultFile (Some (ReadOk (Parsed numeric_book))), ReadFinished 1])
     = Some numeric_book \<and>
   currentData (app_run loaded_app [DefaultFile (Some (ReadOk (Parsed numeric_book))), ReadFinished 1])
     = currentData loaded_app"
proof -
  let ?s = "app_step loaded_app (DefaultFile (Some (ReadOk (Parsed numeric_book))))"
  have p: "map_of (pending ?s) 1 = Some (ReadOk (Parsed numeric_book))" by code_simp
  have m: "map_of numeric_book (sheetSelect ?s) = Some [[(''Equipement'', CNum 4021)]]" by code_simp
  have e: "normalizeData [[(''Equipement'', CNum 4021)]] = Inl (TypeError ''equipement.trim is not a function'')"
    by code_simp
  have c: "currentData ?s = currentData loaded_app" by (simp add: start_read_def)
  show ?thesis using p m e c load_error_mixed_state [OF p m e] by simp
qed

end
