(* ===== verification/Spec2Isabelle.thy ===== *)
theory Spec2Isabelle
  imports App Table
begin

text \<open>
  \<^bold>\<open>A verification model of the maintenance dashboard \<open>src/gestion-maintenance/js/app.js\<close>.\<close>

  \<^bold>\<open>The program.\<close> A browser page loads a spreadsheet (chosen by the user, or fetched
  from \<open>data/gestion-maintenace.xlsx\<close>), reads it with a \<open>FileReader\<close>, parses it with the
  external XLSX library, and turns the rows of the selected sheet into maintenance records
  (\<open>normalizeData\<close>). Each record gets a facility type (\<open>detectType\<close>) and a repair
  status (\<open>detectStatut\<close>). Four \<open><select>\<close> filters give the view \<open>filteredData\<close>
  (\<open>applyFilters\<close>), from which \<open>updateDisplay\<close> writes four counters, re-creates two
  Chart.js charts, writes the table rows sorted by date and re-creates a DataTables grid; and
  which \<open>exportToCSV\<close> downloads. All state lives in four global variables, two properties
  of \<open>window\<close> and the page's elements; every handler runs to completion, but file reads
  finish asynchronously, in any order.

  \<^bold>\<open>Theories, bottom up.\<close>
  \<^item> \<open>Prelude\<close>: cell values (string, integer, boolean) of a row object; a row as its
    properties in enumeration order; JavaScript truthiness and the \<open>a || b || ''\<close> chain
    (\<open>js_or\<close>); \<open>String(v)\<close>, \<open>toUpperCase\<close>, \<open>toLowerCase\<close>, \<open>trim\<close>,
    \<open>includes\<close> and \<open>join\<close> on strings of code units U+0000 to U+00FF.
  \<^item> \<open>Resolver\<close>: \<open>resolve\<close> and the alias lists of lines 133 to 147.
  \<^item> \<open>Type_Classifier\<close>: \<open>detectType\<close> (lines 158 to 172) and its keyword groups.
  \<^item> \<open>Status_Classifier\<close>: \<open>detectStatut\<close> (lines 175 to 196), with
    \<open>JSON.stringify\<close> of a row (\<open>json_row\<close>) for its text phase.
  \<^item> \<open>Normalize\<close>: the record \<open>mrec\<close> and \<open>normalizeData\<close> (lines 124 to 155), whose
    result is \<open>js_error + mrec list\<close>: a \<open>TypeError\<close> when \<open>trim\<close> is called on a
    number or a boolean.
  \<^item> \<open>Filters\<close>: the filter predicate of \<open>applyFilters\<close> (lines 209 to 231) and the counts
    of \<open>updateStats\<close>, \<open>updateStatusChart\<close> and \<open>updateTypeChart\<close>.
  \<^item> \<open>Table\<close>: \<open>escapeHtml\<close>, the row template of \<open>updateTable\<close>, and a reader of
    the resulting markup after the HTML tokenizer (\<open>html_read\<close>).
  \<^item> \<open>Display\<close>: \<open>updateDisplay\<close> and what it calls (lines 248 to 470) as updates of a
    record \<open>display\<close>: the counters, the Chart.js configurations, the date sort of the
    table (\<open>date_cmp\<close>, \<open>SortCompare\<close>, a stable \<open>Array.prototype.sort\<close>), the rows, the
    DataTables options; library instances are explicit stores whose entries \<open>destroy\<close>
    marks dead and \<open>create\<close> appends, the globals holding an index into them; a
    DataTables instance keeps the rows it was created on and puts them back when destroyed.
  \<^item> \<open>Export\<close>: the CSV text and file name of \<open>exportToCSV\<close>, and an RFC 4180 reader.
  \<^item> \<open>App\<close>: the page as a record \<open>app\<close> (the globals, the select values, the display,
    the reads in flight, alerts and downloads) and \<open>app_step\<close>, one equation per event
    handler; \<open>reachable\<close> is the inductive closure of the steps from \<open>init_app\<close>, and
    \<open>app_step_invariant\<close> reduces an invariant of the view to \<open>applyFilters\<close> and
    \<open>loadSheetData\<close>.
  This theory states the properties that span the components: the record invariant and the
  display invariant over every reachable page state, and the two end-to-end scenarios of the
  specification as evaluated examples.

  \<^bold>\<open>What is proved.\<close> The resolver returns the first truthy alias; the type classifier
  picks the first matching keyword group and ignores letter case; the status classifier lets
  the status columns decide, in the order received, repaired, not repaired; the pipeline keeps
  exactly the rows with a non-blank string equipment, in order, or throws; filters with
  \<open>all\<close> are the identity; the chart configurations implement the specification's count
  mappings; with valid dates the table is sorted latest first, stably; the CSV text reads
  back to the records when no value holds a quote and has one line per record plus one per
  line break inside a value; the browser shows in each cell the cell's string with its line
  breaks normalised, and a row cannot add markup; in every reachable state, once data is
  loaded, the view is the loaded data filtered by the current selection and the counters and
  the single live chart of each canvas show it.

  \<^bold>\<open>What modelling showed\<close> (each a theorem or an evaluated example): the \<open>EP\<close>
  keyword matches inside words (\<open>Septembre\<close>); the type ignores the \<open>Etablissement\<close>
  spelling; the text phase of the status search reads column names and JSON escapes, and
  never reaches its
  \<open>non r\<acute>epar\<acute>e\<close> keywords; a number 0 is dropped by \<open>||\<close>; a numeric equipment
  aborts the whole sheet; a sheet without equipment leaves the previous view, display and
  export in place; reads install their workbook in the order they finish; a failed load
  leaves the new workbook beside the old records; CSV values are not escaped; a date the
  engine cannot parse makes the sort comparator inconsistent; because \<open>updateTable\<close>
  destroys the old DataTables grid after writing the new rows, the grid and the table body
  keep the rows of the first redraw while counters and charts follow the data.

  \<^bold>\<open>Bounds and limits of the model.\<close> No fuel is needed: every loop is a structural
  recursion, and \<open>html_text\<close> terminates by the length of its input. Numbers in cells
  are integers (no fractional cells); strings are Latin-1 code units, where \<open>toUpperCase\<close>
  keeps U+00B5 and U+00FF (their upper forms lie outside Latin-1 and contain no keyword
  letter). Time values are integers within \<open>TimeClip\<close>'s range, where the sign of a
  floating-point difference is exact; the engine's parser of date strings is a parameter
  (\<open>sample_date_parse\<close>, the date-only ISO form, serves the concrete runs). Not modelled:
  the XLSX parser and \<open>sheet_to_json\<close> (their output is the input of the model), the
  drawing done by Chart.js and DataTables (including DataTables' own ordering by its
  \<open>order\<close> option), the page title's emoji, \<open>console\<close> output and
  \<open>URL.createObjectURL\<close>.
\<close>

section \<open>Invariant across components\<close>

definition records_ok :: "mrec list \<Rightarrow> bool" where
  "records_ok ms = (\<forall>m \<in> set ms. js_trim (equipement m) \<noteq> [])"

definition page_ok :: "app \<Rightarrow> bool" where
  "page_ok s = (records_ok (currentData s) \<and> records_ok (filteredData s))"

text \<open>The display shows the rendered list once records are loaded, and keeps the engine's
  date parser.\<close>

definition display_ok :: "(string \<Rightarrow> int option) \<Rightarrow> app \<Rightarrow> bool" where
  "display_ok parse s =
     (date_parse (dom s) = parse \<and> display_inv (dom s) \<and>
      (currentData s \<noteq> [] \<longrightarrow> drawn (dom s) (shown s)))"

lemma records_ok_filter: "records_ok ms \<Longrightarrow> records_ok (filter_data f ms)"
  by (auto simp: records_ok_def filter_data_def)

lemma page_ok_alert [simp]: "page_ok (alert m s) = page_ok s"
  by (simp add: page_ok_def)

lemma page_ok_apply_filters: "page_ok s \<Longrightarrow> page_ok (apply_filters s)"
  by (auto simp: page_ok_def apply_filters_def Let_def records_ok_def filter_data_def)

lemma page_ok_load_sheet_data: "page_ok s \<Longrightarrow> page_ok (fst (load_sheet_data name s))"
proof -
  assume ok: "page_ok s"
  have "records_ok ms" if "normalizeData rows = Inr ms" for rows ms
    using normalizeData_equipment_nonblank [OF that] by (simp add: records_ok_def)
  with ok show ?thesis
    by (auto simp: load_sheet_data_def page_ok_def alert_def apply_filters_def Let_def
             records_ok_filter split: option.splits sum.splits)
qed

lemma page_ok_step: "page_ok s \<Longrightarrow> page_ok (app_step s e)"
proof (erule app_step_invariant)
  show "page_ok s'" if "page_ok s" "core s' = core s" for s s'
    using that by (simp add: page_ok_def core_def)
  show "page_ok (apply_filters (s\<lparr>sel := f\<rparr>))" if "page_ok s" for s f
    using that by (intro page_ok_apply_filters) (simp add: page_ok_def)
qed (rule page_ok_load_sheet_data)

lemma reachable_page_ok: "reachable s0 s \<Longrightarrow> page_ok s0 \<Longrightarrow> page_ok s"
  by (induction rule: reachable.induct) (auto intro: page_ok_step)

lemma display_ok_init: "display_ok parse (init_app sel0 sheet0 parse)"
  by (simp add: display_ok_def init_app_def init_display_inv)

lemma display_ok_apply_filters:
  "date_parse (dom s) = parse \<Longrightarrow> display_inv (dom s) \<Longrightarrow> display_ok parse (apply_filters s)"
  by (simp add: display_ok_def apply_filters_def Let_def update_display_inv update_display_drawn)

lemma display_ok_load_sheet_data:
  assumes ok: "display_ok parse s"
  shows "display_ok parse (fst (load_sheet_data name s))"
proof -
  have "display_ok parse (apply_filters (s\<lparr>currentData := ms\<rparr>))" for ms
    using ok by (intro display_ok_apply_filters) (simp_all add: display_ok_def)
  then show ?thesis using ok
    by (auto simp: load_sheet_data_def display_ok_def split: option.splits sum.splits)
qed

lemma display_ok_step: "display_ok parse s \<Longrightarrow> display_ok parse (app_step s e)"
proof (erule app_step_invariant)
  show "display_ok parse s'" if "display_ok parse s" "core s' = core s" for s s'
    using that by (simp add: display_ok_def core_def)
  show "display_ok parse (apply_filters (s\<lparr>sel := f\<rparr>))" if "display_ok parse s" for s f
    using that by (intro display_ok_apply_filters) (simp_all add: display_ok_def)
qed (rule display_ok_load_sheet_data)

lemma reachable_display_ok: "reachable s0 s \<Longrightarrow> display_ok parse s0 \<Longrightarrow> display_ok parse s"
  by (induction rule: reachable.induct) (auto intro: display_ok_step)

text \<open>Claim C6 (record invariant of the page): in every state the page reaches from its
  initial state, every loaded record and every record of the view has an equipment value
  with a non-blank character.\<close>

theorem reachable_records_nonblank:
  "reachable (init_app sel0 sheet0 parse) s \<Longrightarrow>
   (\<forall>m \<in> set (currentData s). js_trim (equipement m) \<noteq> []) \<and>
   (\<forall>m \<in> set (filteredData s). js_trim (equipement m) \<noteq> [])"
proof -
  assume "reachable (init_app sel0 sheet0 parse) s"
  moreover have "page_ok (init_app sel0 sheet0 parse)" by (simp add: page_ok_def records_ok_def init_app_def)
  ultimately have "page_ok s" by (rule reachable_page_ok)
  then show ?thesis by (simp add: page_ok_def records_ok_def)
qed

theorem reachable_records_nonblank_witness:
  "reachable (init_app sample_sel ''Feuil1'' sample_date_parse) loaded_app \<and> filteredData loaded_app \<noteq> [] \<and>
   js_trim (equipement (hd (filteredData loaded_app))) \<noteq> []"
proof -
  have r: "reachable (init_app sample_sel ''Feuil1'' sample_date_parse) loaded_app"
    unfolding loaded_app_def by (rule reachable_app_run)
  have f: "filteredData loaded_app \<noteq> []" by code_simp
  show ?thesis using r f reachable_records_nonblank [OF r] by simp
qed

text \<open>Claim C7 (the counters and charts show the view): in every state the page reaches from
  its initial state, once records are loaded, the counters and the single live chart of each
  canvas show the loaded records that pass the current selection, and exactly one DataTables
  instance is live.\<close>

theorem reachable_display_consistent:
  "reachable (init_app sel0 sheet0 parse) s \<Longrightarrow> currentData s \<noteq> [] \<Longrightarrow>
   counters (dom s) = Some (update_stats (filter_data (sel s) (currentData s))) \<and>
   filter snd (statusCharts (dom s)) = [(status_cfg (filter_data (sel s) (currentData s)), True)] \<and>
   filter snd (typeCharts (dom s)) = [(type_cfg (filter_data (sel s) (currentData s)), True)] \<and>
   length (filter snd (dataTables (dom s))) = 1"
proof -
  assume r: "reachable (init_app sel0 sheet0 parse) s" and c: "currentData s \<noteq> []"
  have "view_ok s" using reachable_view_ok [OF r view_ok_init] .
  moreover have "display_ok parse s" using reachable_display_ok [OF r display_ok_init] .
  ultimately show ?thesis using c by (simp add: view_ok_def display_ok_def drawn_def)
qed

theorem reachable_display_consistent_witness:
  "reachable (init_app sample_sel ''Feuil1'' sample_date_parse) loaded_app \<and> currentData loaded_app \<noteq> [] \<and>
   filter snd (statusCharts (dom loaded_app)) = [(status_cfg (filter_data (sel loaded_app) (currentData loaded_app)), True)]"
proof -
  have r: "reachable (init_app sample_sel ''Feuil1'' sample_date_parse) loaded_app"
    unfolding loaded_app_def by (rule reachable_app_run)
  have c: "currentData loaded_app \<noteq> []" by code_simp
  show ?thesis using r c reachable_display_consistent [OF r c] by simp
qed

section \<open>End-to-end scenarios\<close>

text \<open>First scenario of the specification: of the rows
  \<open>{"\<acute>equipement":"PC-01","Marque":"Dell","\<acute>etablissement":"CEM Ibn Khaldoun","rec":1}\<close>
  and \<open>{"Equipement":"","Marque":"HP"}\<close> the pipeline keeps one record: equipment
  \<open>PC-01\<close>, type CEM, status \<open>'rec'\<close>; the second row is dropped.\<close>

theorem scenario_one_record:
  "normalizeData
     [[(e_acute # ''quipement'', CStr ''PC-01''), (''Marque'', CStr ''Dell''),
       (e_acute # ''tablissement'', CStr ''CEM Ibn Khaldoun''), (''rec'', CNum 1)],
      [(''Equipement'', CStr []), (''Marque'', CStr ''HP'')]]
   = Inr [\<lparr>equipement = ''PC-01'', marque = CStr ''Dell'', inventaire = CStr [], serie = CStr [],
           etablissement = CStr ''CEM Ibn Khaldoun'', etype = CEM, panne = CStr [],
           technicien = CStr [], statut = Rec, date = CStr []\<rparr>]"
  by code_simp

text \<open>Second scenario of the specification: a printer of a lyc\<acute>ee with no status
  column and no status keyword gets the default status \<open>'rec'\<close> and the type Lyc\<acute>ee.\<close>

theorem scenario_default_status:
  "normalizeData [[(e_acute # ''quipement'', CStr ''Imprimante''),
                   (e_acute # ''tablissement'', CStr (''Lyc'' @ [e_acute] @ ''e Ahmed''))]]
   = Inr [\<lparr>equipement = ''Imprimante'', marque = CStr [], inventaire = CStr [], serie = CStr [],
           etablissement = CStr (''Lyc'' @ [e_acute] @ ''e Ahmed''), etype = Lycee, panne = CStr [],
           technicien = CStr [], statut = Rec, date = CStr []\<rparr>]"
  by code_simp

end
